theory Spec2Isabelle
  imports Main "HOL-Library.Word"
begin

section \<open>Data model\<close>

text \<open>A \<^verbatim>\<open>Uint8Array\<close> is a list of bytes.\<close>

type_synonym bytes = "8 word list"

text \<open>
  \<^verbatim>\<open>EphemeralMessagePublicData\<close> is \<^verbatim>\<open>{docId, pubKey}\<close>; the public data of an update
  has the same two fields and \<^verbatim>\<open>refSnapshotId\<close> and \<^verbatim>\<open>clock\<close> besides, so it is the
  extension of the former record.
\<close>

record EphemeralMessagePublicData =
  docId :: string
  pubKey :: string

record UpdatePublicData = EphemeralMessagePublicData +
  refSnapshotId :: string
  clock :: int

text \<open>
  Snapshots, updates and ephemeral messages share the envelope
  \<^verbatim>\<open>{ciphertext, nonce, signature, publicData}\<close>, all fields base64 strings but the last.
\<close>

record 'pd Envelope =
  ciphertext :: string
  nonce :: string
  signature :: string
  publicData :: 'pd

type_synonym EphemeralMessage = "EphemeralMessagePublicData Envelope"

type_synonym Update = "UpdatePublicData Envelope"

record SessionEntry =
  sessionId :: string
  sessionCounter :: int

type_synonym ValidSessions = "string \<rightharpoonup> SessionEntry"

text \<open>The field \<^verbatim>\<open>id\<close> of the session is \<open>id_session\<close> here (\<open>id\<close> is HOL's identity).\<close>

record EphemeralMessagesSession =
  id_session :: string
  counter :: int
  validSessions :: ValidSessions

record KeyPair =
  privateKey :: bytes
  publicKey :: bytes
  keyType :: string

text \<open>
  The object returned by \<^verbatim>\<open>verifyAndDecryptEphemeralMessage\<close>: each property is either
  present or \<^verbatim>\<open>undefined\<close> (\<open>None\<close>).
\<close>

record EphemeralResult =
  r_error :: "string option"
  r_proof :: "bytes option"
  r_requestProof :: "bool option"
  r_validSessions :: "ValidSessions option"
  r_content :: "bytes option"

section \<open>Functions imported by the module\<close>

text \<open>
  \<^verbatim>\<open>verifyAndDecryptEphemeralMessage.ts\<close> imports its cryptography and its byte helpers
  (\<^verbatim>\<open>canonicalize\<close>, the \<^verbatim>\<open>sodium\<close> handle, \<^verbatim>\<open>verifySignature\<close>, \<^verbatim>\<open>decryptAead\<close>,
  \<^verbatim>\<open>extractPrefixFromUint8Array\<close>, \<^verbatim>\<open>uint8ArrayToNumber\<close>, \<^verbatim>\<open>createEphemeralMessageProof\<close>,
  \<^verbatim>\<open>verifyEphemeralSessionProof\<close>). They are parameters of the model. A function that may
  throw returns an option, \<open>None\<close> standing for the exception.

  The last three fields are what the update codec needs besides: \<^verbatim>\<open>canonicalize\<close> on the
  public data of an update, the detached signature over \<^verbatim>\<open>{nonce, ciphertext, publicData}\<close>
  and the AEAD encryption, which takes its nonce as an argument here (the code draws it at
  random).
\<close>

record Deps =
  canonicalize :: "EphemeralMessagePublicData \<Rightarrow> string"
  string_to_base64 :: "string \<Rightarrow> string"
  to_base64 :: "bytes \<Rightarrow> string"
  from_base64 :: "string \<Rightarrow> bytes option"
  verifySignature :: "string \<times> string \<times> string \<Rightarrow> string \<Rightarrow> bytes \<Rightarrow> bool option"
  decryptAead :: "bytes \<Rightarrow> string \<Rightarrow> bytes \<Rightarrow> string \<Rightarrow> bytes option"
  extractPrefixFromUint8Array :: "bytes \<Rightarrow> nat \<Rightarrow> (bytes \<times> bytes) option"
  uint8ArrayToNumber :: "bytes \<Rightarrow> int option"
  createEphemeralMessageProof :: "string \<Rightarrow> string \<Rightarrow> KeyPair \<Rightarrow> bytes option"
  verifyEphemeralSessionProof :: "bytes \<Rightarrow> string \<Rightarrow> string \<Rightarrow> bytes \<Rightarrow> bool option"
  canonicalizeUpdate :: "UpdatePublicData \<Rightarrow> string"
  signDetached :: "string \<times> string \<times> string \<Rightarrow> bytes \<Rightarrow> string"
  encryptAead :: "bytes \<Rightarrow> string \<Rightarrow> bytes \<Rightarrow> string \<Rightarrow> string"

text \<open>
  Modelled from the spec: \<^verbatim>\<open>idLength\<close> of \<^verbatim>\<open>crypto/generateId\<close>, which is not among the
  sources. The spec gives session ids 24 bytes.
\<close>

definition idLength :: nat where
  "idLength = 24"

text \<open>
  Modelled from the spec: the table \<^verbatim>\<open>messageTypes\<close> of \<^verbatim>\<open>createEphemeralMessage\<close>, which
  is not among the sources. The spec gives
  \<^verbatim>\<open>initialize=0, proof=1, proofAndRequestProof=2, message=3\<close>.
\<close>

definition messageTypes_initialize :: "8 word" where
  "messageTypes_initialize = 0"

definition messageTypes_proof :: "8 word" where
  "messageTypes_proof = 1"

definition messageTypes_proofAndRequestProof :: "8 word" where
  "messageTypes_proofAndRequestProof = 2"

definition messageTypes_message :: "8 word" where
  "messageTypes_message = 3"

section \<open>verifyAndDecryptEphemeralMessage\<close>

text \<open>The object \<^verbatim>\<open>{ error: new Error(code) }\<close>.\<close>

definition errorResult :: "string \<Rightarrow> EphemeralResult" where
  "errorResult code =
     \<lparr>r_error = Some code, r_proof = None, r_requestProof = None,
      r_validSessions = None, r_content = None\<rparr>"

text \<open>The object \<^verbatim>\<open>{ validSessions }\<close>.\<close>

definition onlyValidSessions :: "ValidSessions \<Rightarrow> EphemeralResult" where
  "onlyValidSessions vs =
     \<lparr>r_error = None, r_proof = None, r_requestProof = None,
      r_validSessions = Some vs, r_content = None\<rparr>"

text \<open>
  What lines 23 to 72 compute before the first decision on the plaintext: the message type
  (\<^verbatim>\<open>messageTypeAsUint8Array[0]\<close>, \<^verbatim>\<open>undefined\<close> for an empty prefix), the session id, the
  session counter, the rest of the plaintext and the sender's public key.
\<close>

record Header =
  h_type :: "8 word option"
  h_sessionId :: string
  h_sessionCounter :: int
  h_value :: bytes
  h_publicKey :: bytes

text \<open>
  The three ways the first part of the function ends: an exception (caught by the outer
  \<^verbatim>\<open>catch\<close>), an early \<^verbatim>\<open>return\<close>, or the decoded header.
\<close>

datatype Decoded = Thrown | Returned EphemeralResult | Decoded Header

text \<open>
  Lines 23 to 72: the signature is verified over \<^verbatim>\<open>{nonce, ciphertext, publicData}\<close> with
  the public key named in the message (\<^verbatim>\<open>SECSYNC_ERROR_38\<close> when invalid), the ciphertext
  is decrypted inside the inner \<^verbatim>\<open>try\<close> (\<^verbatim>\<open>SECSYNC_ERROR_21\<close> when that throws), and the
  plaintext is cut into type, session id and session counter.
\<close>

definition decodeEphemeralMessage :: "Deps \<Rightarrow> EphemeralMessage \<Rightarrow> bytes \<Rightarrow> Decoded" where
  "decodeEphemeralMessage d ephemeralMessage key =
     (let publicDataAsBase64 = string_to_base64 d (canonicalize d (publicData ephemeralMessage)) in
      case from_base64 d (pubKey (publicData ephemeralMessage)) of
        None \<Rightarrow> Thrown
      | Some publicKey' \<Rightarrow>
      (case verifySignature d
              (nonce ephemeralMessage, ciphertext ephemeralMessage, publicDataAsBase64)
              (signature ephemeralMessage) publicKey' of
        None \<Rightarrow> Thrown
      | Some isValid \<Rightarrow>
      if \<not> isValid then Returned (errorResult ''SECSYNC_ERROR_38'')
      else
      (case (case from_base64 d (ciphertext ephemeralMessage) of
               None \<Rightarrow> None
             | Some c \<Rightarrow>
                 decryptAead d c
                   (string_to_base64 d (canonicalize d (publicData ephemeralMessage)))
                   key (nonce ephemeralMessage)) of
        None \<Rightarrow> Returned (errorResult ''SECSYNC_ERROR_21'')
      | Some content \<Rightarrow>
      (case extractPrefixFromUint8Array d content 1 of
        None \<Rightarrow> Thrown
      | Some (messageTypeAsUint8Array, tmpValue) \<Rightarrow>
      (case extractPrefixFromUint8Array d tmpValue idLength of
        None \<Rightarrow> Thrown
      | Some (sessionIdAsUint8Array, tmp2Value) \<Rightarrow>
      (case extractPrefixFromUint8Array d tmp2Value 4 of
        None \<Rightarrow> Thrown
      | Some (sessionCounterAsUint8Array, value) \<Rightarrow>
      (case uint8ArrayToNumber d sessionCounterAsUint8Array of
        None \<Rightarrow> Thrown
      | Some sessionCounter' \<Rightarrow>
          Decoded
            \<lparr>h_type = (case messageTypeAsUint8Array of [] \<Rightarrow> None | b # _ \<Rightarrow> Some b),
             h_sessionId = to_base64 d sessionIdAsUint8Array,
             h_sessionCounter = sessionCounter',
             h_value = value,
             h_publicKey = publicKey'\<rparr>)))))))"

text \<open>
  Lines 73 to 166, on the decoded header: the document id is compared first, then the
  message type decides. \<open>None\<close> is an exception of \<^verbatim>\<open>createEphemeralMessageProof\<close> or
  \<^verbatim>\<open>verifyEphemeralSessionProof\<close>.
\<close>

definition handleDecoded ::
  "Deps \<Rightarrow> EphemeralMessage \<Rightarrow> string \<Rightarrow> EphemeralMessagesSession \<Rightarrow> KeyPair \<Rightarrow> Header
     \<Rightarrow> EphemeralResult option" where
  "handleDecoded d ephemeralMessage currentDocId ephemeralMessagesSession authorSignatureKeyPair h =
     (let type = h_type h;
          sessionId = h_sessionId h;
          sessionCounter = h_sessionCounter h;
          publicKeyAsBase64 = to_base64 d (h_publicKey h);
          validSessions = validSessions ephemeralMessagesSession in
      if docId (publicData ephemeralMessage) \<noteq> currentDocId then
        Some (onlyValidSessions validSessions)
      else if type = Some messageTypes_initialize then
        (case createEphemeralMessageProof d sessionId (id_session ephemeralMessagesSession)
                authorSignatureKeyPair of
           None \<Rightarrow> None
         | Some proof \<Rightarrow>
             Some \<lparr>r_error = None, r_proof = Some proof, r_requestProof = Some True,
                   r_validSessions = Some validSessions, r_content = None\<rparr>)
      else if type = Some messageTypes_proof \<or> type = Some messageTypes_proofAndRequestProof then
        (case verifyEphemeralSessionProof d (h_value h) (id_session ephemeralMessagesSession)
                sessionId (h_publicKey h) of
           None \<Rightarrow> None
         | Some isValid \<Rightarrow>
             if isValid then
               (let newValidSessions =
                      validSessions(publicKeyAsBase64 \<mapsto>
                        \<lparr>sessionId = sessionId, sessionCounter = sessionCounter\<rparr>) in
                if type = Some messageTypes_proofAndRequestProof then
                  (case createEphemeralMessageProof d sessionId
                          (id_session ephemeralMessagesSession) authorSignatureKeyPair of
                     None \<Rightarrow> None
                   | Some proof \<Rightarrow>
                       Some \<lparr>r_error = None, r_proof = Some proof, r_requestProof = Some False,
                             r_validSessions = Some newValidSessions, r_content = None\<rparr>)
                else
                  Some \<lparr>r_error = None, r_proof = None, r_requestProof = Some False,
                        r_validSessions = Some newValidSessions, r_content = None\<rparr>)
             else Some (onlyValidSessions validSessions))
      else if type = Some messageTypes_message then
        (case validSessions publicKeyAsBase64 of
           None \<Rightarrow>
             (case createEphemeralMessageProof d sessionId (id_session ephemeralMessagesSession)
                     authorSignatureKeyPair of
                None \<Rightarrow> None
              | Some proof \<Rightarrow>
                  Some \<lparr>r_error = Some ''SECSYNC_ERROR_22'', r_proof = Some proof,
                        r_requestProof = Some True, r_validSessions = Some validSessions,
                        r_content = None\<rparr>)
         | Some stored \<Rightarrow>
             if SessionEntry.sessionId stored \<noteq> sessionId then
               (case createEphemeralMessageProof d sessionId (id_session ephemeralMessagesSession)
                       authorSignatureKeyPair of
                  None \<Rightarrow> None
                | Some proof \<Rightarrow>
                    Some \<lparr>r_error = Some ''SECSYNC_ERROR_22'', r_proof = Some proof,
                          r_requestProof = Some True, r_validSessions = Some validSessions,
                          r_content = None\<rparr>)
             else if SessionEntry.sessionCounter stored \<ge> sessionCounter then
               Some (errorResult ''SECSYNC_ERROR_23'')
             else
               Some \<lparr>r_error = None, r_proof = None, r_requestProof = None,
                     r_validSessions =
                       Some (validSessions(publicKeyAsBase64 \<mapsto>
                         \<lparr>sessionId = sessionId, sessionCounter = sessionCounter\<rparr>)),
                     r_content = Some (h_value h)\<rparr>)
      else Some (errorResult ''SECSYNC_ERROR_25''))"

text \<open>
  The whole function: the outer \<^verbatim>\<open>catch\<close> turns every exception into
  \<^verbatim>\<open>SECSYNC_ERROR_36\<close>.
\<close>

definition verifyAndDecryptEphemeralMessage ::
  "Deps \<Rightarrow> EphemeralMessage \<Rightarrow> bytes \<Rightarrow> string \<Rightarrow> EphemeralMessagesSession \<Rightarrow> KeyPair
     \<Rightarrow> EphemeralResult" where
  "verifyAndDecryptEphemeralMessage d ephemeralMessage key currentDocId ephemeralMessagesSession
       authorSignatureKeyPair =
     (case decodeEphemeralMessage d ephemeralMessage key of
        Thrown \<Rightarrow> errorResult ''SECSYNC_ERROR_36''
      | Returned r \<Rightarrow> r
      | Decoded h \<Rightarrow>
          (case handleDecoded d ephemeralMessage currentDocId ephemeralMessagesSession
                  authorSignatureKeyPair h of
             None \<Rightarrow> errorResult ''SECSYNC_ERROR_36''
           | Some r \<Rightarrow> r))"

section \<open>The update codec\<close>

text \<open>
  The object returned by \<^verbatim>\<open>verifyAndDecryptUpdate\<close>: \<^verbatim>\<open>{content, clock}\<close>, \<^verbatim>\<open>{error}\<close>, or
  the empty object.
\<close>

record UpdateResult =
  u_error :: "string option"
  u_content :: "bytes option"
  u_clock :: "int option"

definition updateError :: "string \<Rightarrow> UpdateResult" where
  "updateError code = \<lparr>u_error = Some code, u_content = None, u_clock = None\<rparr>"

definition updateIgnored :: UpdateResult where
  "updateIgnored = \<lparr>u_error = None, u_content = None, u_clock = None\<rparr>"

text \<open>
  Modelled from the spec: \<^verbatim>\<open>createUpdate\<close> of \<^verbatim>\<open>update/createUpdate\<close>, which is not among
  the sources (its tests are). The spec: it sets \<^verbatim>\<open>publicData.clock = clock\<close>, canonicalizes
  the public data, encrypts the content under the key with a fresh nonce and the canonical
  public data, base64-encoded, as associated data, and signs \<^verbatim>\<open>{nonce, ciphertext, ADbase64}\<close>
  with the author's key. The fresh nonce is the last argument.
\<close>

definition createUpdate ::
  "Deps \<Rightarrow> bytes \<Rightarrow> UpdatePublicData \<Rightarrow> bytes \<Rightarrow> KeyPair \<Rightarrow> int \<Rightarrow> string \<Rightarrow> Update" where
  "createUpdate d content publicData' key signatureKeyPair clock' nonce' =
     (let publicDataWithClock = publicData'\<lparr>clock := clock'\<rparr>;
          publicDataAsBase64 = string_to_base64 d (canonicalizeUpdate d publicDataWithClock);
          ciphertext' = encryptAead d content publicDataAsBase64 key nonce'
      in \<lparr>ciphertext = ciphertext',
          nonce = nonce',
          signature =
            signDetached d (nonce', ciphertext', publicDataAsBase64) (privateKey signatureKeyPair),
          publicData = publicDataWithClock\<rparr>)"

text \<open>
  Modelled from the spec: the cryptographic part of \<^verbatim>\<open>verifyAndDecryptUpdate\<close>. The
  signature over \<^verbatim>\<open>{nonce, ciphertext, ADbase64}\<close> is checked with the supplied author public
  key and the ciphertext is opened with the canonical public data as associated data. \<open>None\<close>
  is every failure of the two, which the spec does not distinguish (\<^verbatim>\<open>SECSYNC_ERROR_212\<close>).
\<close>

definition openUpdate :: "Deps \<Rightarrow> Update \<Rightarrow> bytes \<Rightarrow> string \<Rightarrow> bytes option" where
  "openUpdate d update key authorPubKey =
     (let publicDataAsBase64 = string_to_base64 d (canonicalizeUpdate d (publicData update)) in
      case from_base64 d authorPubKey of
        None \<Rightarrow> None
      | Some publicKey' \<Rightarrow>
          if verifySignature d (nonce update, ciphertext update, publicDataAsBase64)
               (signature update) publicKey' \<noteq> Some True
          then None
          else (case from_base64 d (ciphertext update) of
                  None \<Rightarrow> None
                | Some c \<Rightarrow> decryptAead d c publicDataAsBase64 key (nonce update)))"

text \<open>
  Modelled from the spec: \<^verbatim>\<open>verifyAndDecryptUpdate\<close> of \<^verbatim>\<open>update/verifyAndDecryptUpdate\<close>,
  which is not among the sources (its tests are). The spec: the result is
  \<^verbatim>\<open>{content, clock}\<close> on success, \<^verbatim>\<open>{error}\<close> on failure, or an empty object to signal
  "ignore" (the client authored it, or the clock is below the current one and the skip flag
  is set); \<^verbatim>\<open>SECSYNC_ERROR_212\<close> is an invalid signature or an AEAD failure,
  \<^verbatim>\<open>SECSYNC_ERROR_213\<close> a \<^verbatim>\<open>refSnapshotId\<close> that is not the caller's active snapshot,
  \<^verbatim>\<open>SECSYNC_ERROR_214\<close> a clock that is not exactly \<^verbatim>\<open>currentClock + 1\<close>.

  The spec does not give the order of the checks of an update. Here the signature comes
  first, as the spec has it for \<^verbatim>\<open>verifyAndDecryptSnapshot\<close> ("checks the signature with the
  supplied author public key", then the other checks) and as the code has it in
  \<^verbatim>\<open>verifyAndDecryptEphemeralMessage\<close>, and decryption follows it, as in the latter; the
  snapshot check comes before the skip flags and the skip flags before the clock check, as
  the tests of \<^verbatim>\<open>update.test.ts\<close> require. The update counts as authored by the client when
  its \<^verbatim>\<open>pubKey\<close> is the supplied key, as in the last of those tests.
\<close>

definition verifyAndDecryptUpdate ::
  "Deps \<Rightarrow> Update \<Rightarrow> bytes \<Rightarrow> string \<Rightarrow> string \<Rightarrow> int \<Rightarrow> bool \<Rightarrow> bool \<Rightarrow> UpdateResult" where
  "verifyAndDecryptUpdate d update key currentActiveSnapshotId authorPubKey currentClock
       skipIfCurrentClockIsHigher skipIfUpdateAuthoredByCurrentClient =
     (case openUpdate d update key authorPubKey of
        None \<Rightarrow> updateError ''SECSYNC_ERROR_212''
      | Some content \<Rightarrow>
          if refSnapshotId (publicData update) \<noteq> currentActiveSnapshotId then
            updateError ''SECSYNC_ERROR_213''
          else if skipIfCurrentClockIsHigher \<and> clock (publicData update) < currentClock then
            updateIgnored
          else if skipIfUpdateAuthoredByCurrentClient
                  \<and> pubKey (publicData update) = authorPubKey then
            updateIgnored
          else if clock (publicData update) \<noteq> currentClock + 1 then
            updateError ''SECSYNC_ERROR_214''
          else
            \<lparr>u_error = None, u_content = Some content,
             u_clock = Some (clock (publicData update))\<rparr>)"

text \<open>
  The correctness of the two primitives, which a created update needs to verify: a
  signature made with the private key verifies with the public key, and what was encrypted
  decrypts, under the same key, nonce and associated data, to the plaintext.
\<close>

definition signatureCorrect :: "Deps \<Rightarrow> KeyPair \<Rightarrow> bool" where
  "signatureCorrect d kp \<longleftrightarrow>
     (\<forall>p. verifySignature d p (signDetached d p (privateKey kp)) (publicKey kp) = Some True)"

definition aeadCorrect :: "Deps \<Rightarrow> bool" where
  "aeadCorrect d \<longleftrightarrow>
     (\<forall>m ad k n. Option.bind (from_base64 d (encryptAead d m ad k n))
                   (\<lambda>c. decryptAead d c ad k n) = Some m)"

section \<open>The server: createUpdate of the backend's database layer\<close>

text \<open>
  The column \<^verbatim>\<open>clocks\<close> of a snapshot is a JSON value. The code tests that it is an object
  (not \<^verbatim>\<open>null\<close>, not an array, not a primitive) before it reads it, so the model keeps the
  two cases apart. The object maps public keys to clocks, which are taken to be integers,
  as the clocks of the updates are.
\<close>

datatype JsonClocks = NotAnObject | ClocksObject "string \<rightharpoonup> int"

record SnapshotRow =
  row_latestVersion :: int
  row_clocks :: JsonClocks
  row_documentId :: string

record DocumentRow =
  row_activeSnapshotId :: "string option"

text \<open>The row written by \<^verbatim>\<open>prisma.update.create\<close>; \<open>upd_data\<close> is the stringified update.\<close>

record UpdateRow =
  upd_data :: Update
  upd_version :: int
  upd_snapshotId :: string
  upd_snapshotVersion :: int
  upd_pubKey :: string

record Database =
  snapshots :: "string \<rightharpoonup> SnapshotRow"
  documents :: "string \<rightharpoonup> DocumentRow"
  updates :: "UpdateRow list"

text \<open>
  What the transaction may throw: \<^verbatim>\<open>findUniqueOrThrow\<close> finds no row, and the two errors of
  the function itself.
\<close>

datatype TxError = NotFound | OutOfDateSnapshot | ClockIncorrect

text \<open>
  A property read \<^verbatim>\<open>snapshot.clocks[key]\<close> on a plain object: the own entry if there is
  one, what \<^verbatim>\<open>Object.prototype\<close> has under that name otherwise (never a number), else
  \<^verbatim>\<open>undefined\<close>.
\<close>

datatype JsProperty = Undefined | Number int | Inherited

definition objectPrototypeNames :: "string list" where
  "objectPrototypeNames =
     [''constructor'', ''__defineGetter__'', ''__defineSetter__'', ''hasOwnProperty'',
      ''__lookupGetter__'', ''__lookupSetter__'', ''isPrototypeOf'', ''propertyIsEnumerable'',
      ''toString'', ''valueOf'', ''__proto__'', ''toLocaleString'']"

definition readProperty :: "(string \<rightharpoonup> int) \<Rightarrow> string \<Rightarrow> JsProperty" where
  "readProperty obj k =
     (case obj k of
        Some n \<Rightarrow> Number n
      | None \<Rightarrow> if k \<in> set objectPrototypeNames then Inherited else Undefined)"

text \<open>
  The numbers of the code are doubles, with a mantissa of 53 bits. \<open>ulp a\<close> is the distance
  between the doubles around the natural number \<open>a\<close>: 1 below \<open>2 ^ 53\<close>, then 2, then 4.
  \<open>toDouble m\<close> is the double that an integer is read as: the nearest multiple of that
  distance, and of two at the same distance the one with the even mantissa. \<open>jsPlus1 n\<close> is
  the \<^verbatim>\<open>n + 1\<close> of the code: the sum, rounded once more. (An integer of a magnitude of
  \<open>2 ^ 1024\<close> or more has no double near it; no number of the code is one.)
\<close>

function ulp :: "nat \<Rightarrow> nat" where
  "ulp a = (if a < 2 ^ 53 then 1 else 2 * ulp (a div 2))"
  by pat_completeness auto
termination
  by (relation "measure id") auto

declare ulp.simps [simp del]

definition toDouble :: "int \<Rightarrow> int" where
  "toDouble m =
     (let u = int (ulp (nat \<bar>m\<bar>)); q = m div u; r = m mod u
      in if 2 * r < u then q * u
         else if u < 2 * r then (q + 1) * u
         else if even q then q * u else (q + 1) * u)"

definition jsPlus1 :: "int \<Rightarrow> int" where
  "jsPlus1 n = toDouble (toDouble n + 1)"

text \<open>
  Lines 26 to 48: the clock check and the clock update, on the \<^verbatim>\<open>clocks\<close> value read from
  the snapshot. A value that is not an object is passed on as it is, with no check.
\<close>

definition checkClocks :: "JsonClocks \<Rightarrow> Update \<Rightarrow> TxError + JsonClocks" where
  "checkClocks clocks update =
     (case clocks of
        NotAnObject \<Rightarrow> Inr NotAnObject
      | ClocksObject obj \<Rightarrow>
          (case readProperty obj (pubKey (publicData update)) of
             Undefined \<Rightarrow>
               if clock (publicData update) \<noteq> 0 then Inl ClockIncorrect
               else Inr (ClocksObject
                      (obj(pubKey (publicData update) \<mapsto> clock (publicData update))))
           | Number stored \<Rightarrow>
               if jsPlus1 stored \<noteq> clock (publicData update) then Inl ClockIncorrect
               else Inr (ClocksObject
                      (obj(pubKey (publicData update) \<mapsto> clock (publicData update))))
           | Inherited \<Rightarrow> Inl ClockIncorrect))"

text \<open>
  The body of the transaction. \<open>Inl\<close> is a throw; \<open>Inr\<close> carries the created row (to which
  the code applies \<^verbatim>\<open>serializeUpdate\<close>) and the database after the two writes. The snapshot's
  document is reached through its foreign key.
\<close>

definition createUpdateTransaction :: "Database \<Rightarrow> Update \<Rightarrow> TxError + (UpdateRow \<times> Database)" where
  "createUpdateTransaction db update =
     (case snapshots db (refSnapshotId (publicData update)) of
        None \<Rightarrow> Inl NotFound
      | Some snapshot \<Rightarrow>
      (case documents db (row_documentId snapshot) of
        None \<Rightarrow> Inl NotFound
      | Some document \<Rightarrow>
      if row_activeSnapshotId document \<noteq> Some (refSnapshotId (publicData update)) then
        Inl OutOfDateSnapshot
      else
      (case checkClocks (row_clocks snapshot) update of
        Inl e \<Rightarrow> Inl e
      | Inr clocks' \<Rightarrow>
          (let row = \<lparr>upd_data = update,
                      upd_version = jsPlus1 (row_latestVersion snapshot),
                      upd_snapshotId = refSnapshotId (publicData update),
                      upd_snapshotVersion = clock (publicData update),
                      upd_pubKey = pubKey (publicData update)\<rparr>;
               snapshot' = snapshot\<lparr>row_latestVersion := jsPlus1 (row_latestVersion snapshot),
                                    row_clocks := clocks'\<rparr>
           in Inr (row,
                db\<lparr>snapshots := (snapshots db)(refSnapshotId (publicData update) \<mapsto> snapshot'),
                   updates := updates db @ [row]\<rparr>)))))"

text \<open>
  \<^verbatim>\<open>prisma.$transaction\<close>: a throw leaves the database as it was.
\<close>

definition transaction ::
  "(Database \<Rightarrow> TxError + ('a \<times> Database)) \<Rightarrow> Database \<Rightarrow> (TxError + 'a) \<times> Database" where
  "transaction body db =
     (case body db of
        Inl e \<Rightarrow> (Inl e, db)
      | Inr (r, db') \<Rightarrow> (Inr r, db'))"

text \<open>
  The exported function: the transaction run on the database. The first component is what
  the caller gets (the thrown error or the created row), the second the database afterwards.
\<close>

definition database_createUpdate :: "Database \<Rightarrow> Update \<Rightarrow> (TxError + UpdateRow) \<times> Database" where
  "database_createUpdate db update = transaction (\<lambda>db'. createUpdateTransaction db' update) db"

section \<open>The sync machine\<close>

text \<open>
  \<^verbatim>\<open>createSyncMachine\<close> is not among the sources; its tests are. What follows is the part of
  the machine that the spec describes and the properties below are about: the handling of
  the \<^verbatim>\<open>document\<close> message, of an incoming ephemeral message, of
  \<^verbatim>\<open>FAILED_CREATING_EPHEMERAL_UPDATE\<close> and the reset on (re)connect.
\<close>

datatype DocumentDecryptionState = Pending | Partial | Complete | Failed

datatype MachineState = Disconnected | Connecting | Connected | FailedState

record SnapshotPublicData = EphemeralMessagePublicData +
  snapshotId :: string
  parentSnapshotId :: string

type_synonym Snapshot = "SnapshotPublicData Envelope"

text \<open>
  The part of the client sync context the handlers below read and write. \<open>ctx_document\<close> is
  what the host has been given through \<^verbatim>\<open>applySnapshot\<close> and \<^verbatim>\<open>applyChanges\<close>, in order;
  \<open>ctx_ephemeralMessages\<close> what it has been given through \<^verbatim>\<open>applyEphemeralMessage\<close>;
  \<open>ctx_sent\<close> the proofs handed to the transport.
\<close>

record SyncContext =
  ctx_activeSnapshotId :: "string option"
  ctx_documentDecryptionState :: DocumentDecryptionState
  ctx_updateClocks :: "string \<rightharpoonup> int"
  ctx_updatesLocalClock :: int
  ctx_ephemeralMessagesSession :: EphemeralMessagesSession
  ctx_ephemeralMessageReceivingErrors :: "string list"
  ctx_ephemeralMessageAuthoringErrors :: "string list"
  ctx_document :: "bytes list"
  ctx_ephemeralMessages :: "bytes list"
  ctx_sent :: "bytes list"

text \<open>
  What the host configures: the document id, the signature key pair, the keys returned by
  \<^verbatim>\<open>getSnapshotKey\<close> and \<^verbatim>\<open>getEphemeralMessageKey\<close>, the callback \<^verbatim>\<open>isValidClient\<close>
  (\<open>None\<close> when it throws), and \<^verbatim>\<open>verifyAndDecryptSnapshot\<close> (not among the sources
  either) as a function that gives the plaintext of a snapshot or fails.
\<close>

record SyncConfig =
  cfg_documentId :: string
  cfg_signatureKeyPair :: KeyPair
  cfg_snapshotKey :: bytes
  cfg_ephemeralMessageKey :: bytes
  cfg_isValidClient :: "string \<Rightarrow> bool option"
  cfg_verifyAndDecryptSnapshot :: "Snapshot \<Rightarrow> bytes option"

text \<open>
  Modelled from the spec: the two error buffers of the sync machine, which is not among
  the sources. The spec: capacity 20, the oldest entry dropped. The newest entry is first,
  as the test on the authoring errors reads them (entry 0 is the last error recorded).
\<close>

definition addError :: "string \<Rightarrow> string list \<Rightarrow> string list" where
  "addError e errors = take 20 (e # errors)"

text \<open>
  Modelled from the spec: the check of one update attached to a \<^verbatim>\<open>document\<close> message. The
  author must be a client that \<^verbatim>\<open>isValidClient\<close> accepts (a failure of \<^verbatim>\<open>isValidClient\<close>
  during the initial document load is a failure of the load; the spec names one code for a
  client that is not accepted, \<^verbatim>\<open>SECSYNC_ERROR_24\<close>, and the properties below do not depend
  on it). Then the update is verified and decrypted against the active snapshot id, its
  author's public key and that author's clock (\<open>-1\<close> before the author's first update).
\<close>

definition verifyUpdate ::
  "Deps \<Rightarrow> SyncConfig \<Rightarrow> string \<Rightarrow> (string \<rightharpoonup> int) \<Rightarrow> Update \<Rightarrow> UpdateResult" where
  "verifyUpdate d cfg activeSnapshotId clocks update =
     (let author = pubKey (publicData update);
          currentClock = (case clocks author of None \<Rightarrow> - 1 | Some c \<Rightarrow> c)
      in if cfg_isValidClient cfg author \<noteq> Some True then updateError ''SECSYNC_ERROR_24''
         else verifyAndDecryptUpdate d update (cfg_snapshotKey cfg) activeSnapshotId author
                currentClock False False)"

text \<open>
  Modelled from the spec: the loop over the updates attached to a \<^verbatim>\<open>document\<close> message.
  Each update is checked as above; a success is applied and advances the author's clock;
  the first failure stops the iteration. The result is the clocks, the contents applied
  and the error that stopped the loop, if any.
\<close>

fun processUpdates ::
  "Deps \<Rightarrow> SyncConfig \<Rightarrow> string \<Rightarrow> (string \<rightharpoonup> int) \<Rightarrow> Update list
     \<Rightarrow> (string \<rightharpoonup> int) \<times> bytes list \<times> string option" where
  "processUpdates d cfg activeSnapshotId clocks [] = (clocks, [], None)"
| "processUpdates d cfg activeSnapshotId clocks (update # rest) =
     (let author = pubKey (publicData update);
          result = verifyUpdate d cfg activeSnapshotId clocks update
      in case u_error result of
           Some e \<Rightarrow> (clocks, [], Some e)
         | None \<Rightarrow>
             (case (u_content result, u_clock result) of
                (Some content, Some clock') \<Rightarrow>
                  (case processUpdates d cfg activeSnapshotId (clocks(author \<mapsto> clock')) rest of
                     (clocks', applied, err) \<Rightarrow> (clocks', content # applied, err))
              | _ \<Rightarrow> processUpdates d cfg activeSnapshotId clocks rest))"

text \<open>
  Modelled from the spec: the handling of a \<^verbatim>\<open>document\<close> message that includes a snapshot.
  A snapshot whose author \<^verbatim>\<open>isValidClient\<close> does not accept (it returns false or throws), or
  that does not verify and decrypt, makes the machine \<^verbatim>\<open>failed\<close> with
  \<^verbatim>\<open>documentDecryptionState = failed\<close>, as in the test with a collaborator that is not valid.
  Otherwise the snapshot is applied, the active snapshot id set, \<^verbatim>\<open>updatesLocalClock\<close> reset
  to \<open>-1\<close> and the updates processed in order: a failure gives \<^verbatim>\<open>partial\<close> and the state
  \<^verbatim>\<open>failed\<close>, no failure gives \<^verbatim>\<open>complete\<close>.
\<close>

definition handleDocument ::
  "Deps \<Rightarrow> SyncConfig \<Rightarrow> SyncContext \<Rightarrow> Snapshot \<Rightarrow> Update list \<Rightarrow> MachineState \<times> SyncContext" where
  "handleDocument d cfg ctx snapshot updates' =
     (if cfg_isValidClient cfg (pubKey (publicData snapshot)) \<noteq> Some True then
        (FailedState, ctx\<lparr>ctx_documentDecryptionState := Failed\<rparr>)
      else
      (case cfg_verifyAndDecryptSnapshot cfg snapshot of
        None \<Rightarrow> (FailedState, ctx\<lparr>ctx_documentDecryptionState := Failed\<rparr>)
      | Some content \<Rightarrow>
          (case processUpdates d cfg (snapshotId (publicData snapshot)) Map.empty updates' of
             (clocks', applied, err) \<Rightarrow>
               (let ctx' = ctx\<lparr>ctx_activeSnapshotId := Some (snapshotId (publicData snapshot)),
                               ctx_updatesLocalClock := - 1,
                               ctx_updateClocks := clocks',
                               ctx_document := content # applied\<rparr>
                in case err of
                     Some e \<Rightarrow> (FailedState, ctx'\<lparr>ctx_documentDecryptionState := Partial\<rparr>)
                   | None \<Rightarrow> (Connected, ctx'\<lparr>ctx_documentDecryptionState := Complete\<rparr>)))))"

text \<open>
  Modelled from the spec: an incoming \<^verbatim>\<open>ephemeral-message\<close>. A sender for whom
  \<^verbatim>\<open>isValidClient\<close> returns false or throws gives \<^verbatim>\<open>SECSYNC_ERROR_24\<close>. Otherwise the
  message is decoded by \<^verbatim>\<open>verifyAndDecryptEphemeralMessage\<close>; a proof produced is sent
  through the transport, a decoded content is passed to the host, the valid sessions
  returned replace the stored ones. An error lands in the receiving-error buffer.
\<close>

definition handleEphemeralMessage ::
  "Deps \<Rightarrow> SyncConfig \<Rightarrow> SyncContext \<Rightarrow> EphemeralMessage \<Rightarrow> SyncContext" where
  "handleEphemeralMessage d cfg ctx message =
     (if cfg_isValidClient cfg (pubKey (publicData message)) \<noteq> Some True then
        ctx\<lparr>ctx_ephemeralMessageReceivingErrors :=
              addError ''SECSYNC_ERROR_24'' (ctx_ephemeralMessageReceivingErrors ctx)\<rparr>
      else
        (let result = verifyAndDecryptEphemeralMessage d message (cfg_ephemeralMessageKey cfg)
                        (cfg_documentId cfg) (ctx_ephemeralMessagesSession ctx)
                        (cfg_signatureKeyPair cfg);
             session = ctx_ephemeralMessagesSession ctx
         in ctx\<lparr>ctx_ephemeralMessagesSession :=
                  (case r_validSessions result of
                     None \<Rightarrow> session
                   | Some vs \<Rightarrow> session\<lparr>validSessions := vs\<rparr>),
                ctx_sent :=
                  (case r_proof result of
                     None \<Rightarrow> ctx_sent ctx
                   | Some p \<Rightarrow> ctx_sent ctx @ [p]),
                ctx_ephemeralMessages :=
                  (case r_content result of
                     None \<Rightarrow> ctx_ephemeralMessages ctx
                   | Some c \<Rightarrow> ctx_ephemeralMessages ctx @ [c]),
                ctx_ephemeralMessageReceivingErrors :=
                  (case r_error result of
                     None \<Rightarrow> ctx_ephemeralMessageReceivingErrors ctx
                   | Some e \<Rightarrow> addError e (ctx_ephemeralMessageReceivingErrors ctx))\<rparr>))"

text \<open>
  Modelled from the spec: the reset on (re)connect. The queues and in-flight entries of the
  spec's list are not part of this context; \<open>freshSession\<close> is the new ephemeral session.
\<close>

definition resetContext :: "EphemeralMessagesSession \<Rightarrow> SyncContext \<Rightarrow> SyncContext" where
  "resetContext freshSession ctx =
     ctx\<lparr>ctx_documentDecryptionState := Pending,
         ctx_updateClocks := Map.empty,
         ctx_updatesLocalClock := - 1,
         ctx_ephemeralMessagesSession := freshSession,
         ctx_ephemeralMessageReceivingErrors := [],
         ctx_ephemeralMessageAuthoringErrors := []\<rparr>"

text \<open>
  The events of the machine that the handlers above answer. An incoming message stands for
  \<^verbatim>\<open>WEBSOCKET_ADD_TO_INCOMING_QUEUE\<close> with that message, processed when it is taken from the
  queue. The fresh ephemeral session of a (re)connect comes with the event, since its id is
  drawn at random.
\<close>

datatype Event =
    WEBSOCKET_RETRY EphemeralMessagesSession
  | WEBSOCKET_CONNECTED
  | WEBSOCKET_DISCONNECTED EphemeralMessagesSession
  | INCOMING_DOCUMENT Snapshot "Update list"
  | INCOMING_EPHEMERAL_MESSAGE EphemeralMessage
  | FAILED_CREATING_EPHEMERAL_UPDATE string

text \<open>
  Modelled from the spec: one transition of the machine. \<^verbatim>\<open>failed\<close> is terminal. Entering
  \<^verbatim>\<open>connecting\<close>, after \<^verbatim>\<open>WEBSOCKET_RETRY\<close> or \<^verbatim>\<open>WEBSOCKET_DISCONNECTED\<close>, resets the
  per-connection context. Incoming messages are processed while connected.
  \<^verbatim>\<open>FAILED_CREATING_EPHEMERAL_UPDATE\<close> appends to the authoring-error buffer.
\<close>

fun step :: "Deps \<Rightarrow> SyncConfig \<Rightarrow> MachineState \<times> SyncContext \<Rightarrow> Event \<Rightarrow> MachineState \<times> SyncContext" where
  "step d cfg (FailedState, ctx) ev = (FailedState, ctx)"
| "step d cfg (st, ctx) (WEBSOCKET_RETRY freshSession) = (Connecting, resetContext freshSession ctx)"
| "step d cfg (st, ctx) WEBSOCKET_CONNECTED = (Connected, ctx)"
| "step d cfg (st, ctx) (WEBSOCKET_DISCONNECTED freshSession) =
     (Connecting, resetContext freshSession ctx)"
| "step d cfg (Connected, ctx) (INCOMING_DOCUMENT snapshot updates') =
     handleDocument d cfg ctx snapshot updates'"
| "step d cfg (Connected, ctx) (INCOMING_EPHEMERAL_MESSAGE message) =
     (Connected, handleEphemeralMessage d cfg ctx message)"
| "step d cfg (st, ctx) (FAILED_CREATING_EPHEMERAL_UPDATE e) =
     (st, ctx\<lparr>ctx_ephemeralMessageAuthoringErrors :=
                addError e (ctx_ephemeralMessageAuthoringErrors ctx)\<rparr>)"
| "step d cfg (st, ctx) ev = (st, ctx)"

text \<open>The machine run on a sequence of events.\<close>

definition run :: "Deps \<Rightarrow> SyncConfig \<Rightarrow> MachineState \<times> SyncContext \<Rightarrow> Event list \<Rightarrow> MachineState \<times> SyncContext" where
  "run d cfg s evs = foldl (step d cfg) s evs"

text \<open>The machine's initial state: disconnected, nothing decrypted, both buffers empty.\<close>

definition initialContext :: "EphemeralMessagesSession \<Rightarrow> SyncContext" where
  "initialContext session =
     \<lparr>ctx_activeSnapshotId = None,
      ctx_documentDecryptionState = Pending,
      ctx_updateClocks = Map.empty,
      ctx_updatesLocalClock = - 1,
      ctx_ephemeralMessagesSession = session,
      ctx_ephemeralMessageReceivingErrors = [],
      ctx_ephemeralMessageAuthoringErrors = [],
      ctx_document = [],
      ctx_ephemeralMessages = [],
      ctx_sent = []\<rparr>"

section \<open>An instance of the imported functions\<close>

text \<open>
  The properties below hold for every choice of the imported functions. To exhibit inputs
  that meet their hypotheses, here is one choice in which nothing is secret: base64 is the
  bytes read as characters, a signature is the framed signed content with the key in
  front, and a ciphertext is the plaintext behind the framed key, associated data and
  nonce. Public and private key are equal.
\<close>

definition bytesOfString :: "string \<Rightarrow> bytes" where
  "bytesOfString s = map (\<lambda>c. of_nat (of_char c)) s"

definition stringOfBytes :: "bytes \<Rightarrow> string" where
  "stringOfBytes bs = map (\<lambda>b. char_of (unat b)) bs"

text \<open>A string with every character escaped and an end mark: framed strings concatenate
  without ambiguity.\<close>

definition frame :: "string \<Rightarrow> string" where
  "frame s = concat (map (\<lambda>c. [CHR ''x'', c]) s) @ ''y''"

definition plainSign :: "string \<times> string \<times> string \<Rightarrow> bytes \<Rightarrow> string" where
  "plainSign p k =
     (case p of (n, c, ad) \<Rightarrow> frame (stringOfBytes k) @ frame n @ frame c @ frame ad)"

definition plainEncrypt :: "bytes \<Rightarrow> string \<Rightarrow> bytes \<Rightarrow> string \<Rightarrow> string" where
  "plainEncrypt m ad k n = frame (stringOfBytes k) @ frame ad @ frame n @ stringOfBytes m"

definition plainDecrypt :: "bytes \<Rightarrow> string \<Rightarrow> bytes \<Rightarrow> string \<Rightarrow> bytes option" where
  "plainDecrypt c ad k n =
     (let p = bytesOfString (frame (stringOfBytes k) @ frame ad @ frame n) in
      if take (length p) c = p then Some (drop (length p) c) else None)"

definition plainDeps :: Deps where
  "plainDeps =
     \<lparr>canonicalize = (\<lambda>pd. frame (docId pd) @ frame (pubKey pd)),
      string_to_base64 = (\<lambda>s. s),
      to_base64 = stringOfBytes,
      from_base64 = (\<lambda>s. Some (bytesOfString s)),
      verifySignature = (\<lambda>p s k. Some (s = plainSign p k)),
      decryptAead = plainDecrypt,
      extractPrefixFromUint8Array =
        (\<lambda>xs n. if n \<le> length xs then Some (take n xs, drop n xs) else None),
      uint8ArrayToNumber = (\<lambda>xs. Some (foldl (\<lambda>a b. a * 256 + uint b) 0 xs)),
      createEphemeralMessageProof =
        (\<lambda>a b kp. Some (bytesOfString (plainSign (a, b, []) (privateKey kp)))),
      verifyEphemeralSessionProof =
        (\<lambda>p a b k. Some (p = bytesOfString (plainSign (a, b, []) k))),
      canonicalizeUpdate =
        (\<lambda>pd. frame (refSnapshotId pd) @ frame (docId pd) @ frame (pubKey pd)
               @ (if clock pd < 0 then ''-'' else ''+'') @ replicate (nat \<bar>clock pd\<bar>) CHR ''1''),
      signDetached = plainSign,
      encryptAead = plainEncrypt\<rparr>"

text \<open>An ephemeral message made from a plaintext, as its sender would make it.\<close>

definition sealEphemeral :: "bytes \<Rightarrow> string \<Rightarrow> KeyPair \<Rightarrow> bytes \<Rightarrow> EphemeralMessage" where
  "sealEphemeral plaintext doc kp key =
     (let pd = \<lparr>docId = doc, pubKey = stringOfBytes (publicKey kp)\<rparr>;
          ad = canonicalize plainDeps pd;
          c = plainEncrypt plaintext ad key ''n''
      in \<lparr>ciphertext = c, nonce = ''n'',
          signature = plainSign (''n'', c, ad) (privateKey kp), publicData = pd\<rparr>)"

text \<open>Two clients, A the sender and B the receiver, and the key they share.\<close>

definition keyPairA :: KeyPair where
  "keyPairA = \<lparr>privateKey = [65], publicKey = [65], keyType = ''ed25519''\<rparr>"

definition keyPairB :: KeyPair where
  "keyPairB = \<lparr>privateKey = [66], publicKey = [66], keyType = ''ed25519''\<rparr>"

definition sharedKey :: bytes where
  "sharedKey = [1, 2, 3]"

definition sessionIdA :: bytes where
  "sessionIdA = replicate 24 97"

text \<open>The receiver's session: A's session is valid, with counter 5.\<close>

definition sessionB :: EphemeralMessagesSession where
  "sessionB =
     \<lparr>id_session = replicate 24 CHR ''b'', counter = 0,
      validSessions = [''A'' \<mapsto> \<lparr>sessionId = replicate 24 CHR ''a'', sessionCounter = 5\<rparr>]\<rparr>"

text \<open>
  A's message of the given type and counter, with body \<open>[22]\<close>, for the given document.
\<close>

definition messageA :: "8 word \<Rightarrow> 8 word \<Rightarrow> string \<Rightarrow> EphemeralMessage" where
  "messageA type' counter' doc =
     sealEphemeral ([type'] @ sessionIdA @ [0, 0, 0, counter'] @ [22]) doc keyPairA sharedKey"

text \<open>
  A's message for the document \<open>other\<close> whose plaintext has 11 bytes, fewer than the header
  of 29.
\<close>

definition shortMessage :: EphemeralMessage where
  "shortMessage = sealEphemeral (3 # replicate 10 97) ''other'' keyPairA sharedKey"

text \<open>The update of the tests: A's \<open>Hello World\<close> with the given clock.\<close>

definition helloWorld :: bytes where
  "helloWorld = bytesOfString ''Hello World''"

definition publicDataA :: UpdatePublicData where
  "publicDataA =
     \<lparr>docId = ''6e46c006-5541-11ec-bf63-0242ac130002'', pubKey = ''A'',
      refSnapshotId = ''snapshot-1'', clock = 0\<rparr>"

definition updateA :: "int \<Rightarrow> Update" where
  "updateA c = createUpdate plainDeps helloWorld publicDataA sharedKey keyPairA c ''n''"

text \<open>
  Databases for the examples: one document whose active snapshot is \<open>snapshot-1\<close>, at
  version 7, with the given \<^verbatim>\<open>clocks\<close> value.
\<close>

definition databaseWith :: "JsonClocks \<Rightarrow> Database" where
  "databaseWith clocks =
     \<lparr>snapshots =
        [''snapshot-1'' \<mapsto>
           \<lparr>row_latestVersion = 7, row_clocks = clocks, row_documentId = ''document-1''\<rparr>],
      documents = [''document-1'' \<mapsto> \<lparr>row_activeSnapshotId = Some ''snapshot-1''\<rparr>],
      updates = []\<rparr>"

section \<open>What the properties of the sync machine are stated with\<close>




text \<open>The error, if any, that an incoming ephemeral message gives in a context.\<close>

definition errorOf :: "Deps \<Rightarrow> SyncConfig \<Rightarrow> SyncContext \<Rightarrow> EphemeralMessage \<Rightarrow> string option" where
  "errorOf d cfg ctx message =
     (if cfg_isValidClient cfg (pubKey (publicData message)) \<noteq> Some True then
        Some ''SECSYNC_ERROR_24''
      else
        r_error (verifyAndDecryptEphemeralMessage d message (cfg_ephemeralMessageKey cfg)
          (cfg_documentId cfg) (ctx_ephemeralMessagesSession ctx) (cfg_signatureKeyPair cfg)))"

text \<open>
  What the events of a run record, read off the events and the states they meet, not off
  the buffers. An event resets the buffers when it makes the machine enter \<^verbatim>\<open>connecting\<close>;
  it records a receiving error when it is an ephemeral message that gives an error,
  received while connected; it records an authoring error when it is
  \<^verbatim>\<open>FAILED_CREATING_EPHEMERAL_UPDATE\<close>. The machine that is \<^verbatim>\<open>failed\<close> answers no event.
\<close>

definition resets :: "MachineState \<times> SyncContext \<Rightarrow> Event \<Rightarrow> bool" where
  "resets s ev =
     (case ev of
        WEBSOCKET_RETRY freshSession \<Rightarrow> fst s \<noteq> FailedState
      | WEBSOCKET_DISCONNECTED freshSession \<Rightarrow> fst s \<noteq> FailedState
      | _ \<Rightarrow> False)"

definition receivedError ::
  "Deps \<Rightarrow> SyncConfig \<Rightarrow> MachineState \<times> SyncContext \<Rightarrow> Event \<Rightarrow> string option" where
  "receivedError d cfg s ev =
     (case ev of
        INCOMING_EPHEMERAL_MESSAGE message \<Rightarrow>
          if fst s = Connected then errorOf d cfg (snd s) message else None
      | _ \<Rightarrow> None)"

definition authoredError :: "MachineState \<times> SyncContext \<Rightarrow> Event \<Rightarrow> string option" where
  "authoredError s ev =
     (case ev of
        FAILED_CREATING_EPHEMERAL_UPDATE e \<Rightarrow> if fst s = FailedState then None else Some e
      | _ \<Rightarrow> None)"

text \<open>
  The errors recorded since the last reset, the oldest first: the log before an event and
  the log after it.
\<close>

definition logged :: "bool \<Rightarrow> string option \<Rightarrow> string list \<Rightarrow> string list" where
  "logged reset err log =
     (if reset then [] else case err of None \<Rightarrow> log | Some e \<Rightarrow> log @ [e])"

fun errorsReceived ::
  "Deps \<Rightarrow> SyncConfig \<Rightarrow> MachineState \<times> SyncContext \<Rightarrow> Event list \<Rightarrow> string list
     \<Rightarrow> string list" where
  "errorsReceived d cfg s [] log = log"
| "errorsReceived d cfg s (ev # evs) log =
     errorsReceived d cfg (step d cfg s ev) evs
       (logged (resets s ev) (receivedError d cfg s ev) log)"

fun errorsAuthored ::
  "Deps \<Rightarrow> SyncConfig \<Rightarrow> MachineState \<times> SyncContext \<Rightarrow> Event list \<Rightarrow> string list
     \<Rightarrow> string list" where
  "errorsAuthored d cfg s [] log = log"
| "errorsAuthored d cfg s (ev # evs) log =
     errorsAuthored d cfg (step d cfg s ev) evs
       (logged (resets s ev) (authoredError s ev) log)"

text \<open>
  The client B of the examples: its configuration, in which A is the valid client and the
  snapshot \<open>snapshot-1\<close> decrypts to \<open>Hello World\<close>, that snapshot, and the errors of the
  test on the authoring errors.
\<close>

definition configB :: SyncConfig where
  "configB =
     \<lparr>cfg_documentId = ''doc'',
      cfg_signatureKeyPair = keyPairB,
      cfg_snapshotKey = sharedKey,
      cfg_ephemeralMessageKey = sharedKey,
      cfg_isValidClient = (\<lambda>signingPublicKey. Some (signingPublicKey = ''A'')),
      cfg_verifyAndDecryptSnapshot =
        (\<lambda>s. if snapshotId (publicData s) = ''snapshot-1'' then Some helloWorld else None)\<rparr>"



definition errorNo :: "nat \<Rightarrow> string" where
  "errorNo n =
     ''Wrong ephemeral message key #''
       @ (if n < 10 then [char_of (48 + n)]
          else [char_of (48 + n div 10), char_of (48 + n mod 10)])"

text \<open>
  A's message with a signature that is not its own: that of A's message with the next
  counter.
\<close>

definition brokenMessage :: EphemeralMessage where
  "brokenMessage = (messageA 3 0 ''doc'')\<lparr>signature := signature (messageA 3 1 ''doc'')\<rparr>"

text \<open>
  The events of the two tests on the buffers: 24 authoring errors; 25 messages with a
  signature that is not theirs, then a message that is accepted.
\<close>

definition authoringEvents :: "Event list" where
  "authoringEvents =
     [WEBSOCKET_RETRY sessionB, WEBSOCKET_CONNECTED]
       @ map FAILED_CREATING_EPHEMERAL_UPDATE (map errorNo [0..<24])"

definition receivingEvents :: "Event list" where
  "receivingEvents =
     [WEBSOCKET_RETRY sessionB, WEBSOCKET_CONNECTED]
       @ replicate 25 (INCOMING_EPHEMERAL_MESSAGE brokenMessage)
       @ [INCOMING_EPHEMERAL_MESSAGE (messageA 3 6 ''doc'')]"

section \<open>Facts about the instance\<close>

lemma byte_roundtrip: "of_nat (unat (b :: 8 word) mod 256) = b"
proof -
  have "unat b < 256"
    using unsigned_less [of b, where 'a = nat] by simp
  then have "unat b mod 256 = unat b"
    by simp
  then show ?thesis
    by simp
qed

lemma bytesOfString_stringOfBytes: "bytesOfString (stringOfBytes bs) = bs"
  by (induction bs) (simp_all add: bytesOfString_def stringOfBytes_def byte_roundtrip)

lemma bytesOfString_append: "bytesOfString (s @ t) = bytesOfString s @ bytesOfString t"
  by (simp add: bytesOfString_def)

lemma plainDecrypt_plainEncrypt:
  "plainDecrypt (bytesOfString (plainEncrypt m ad k n)) ad k n = Some m"
  by (simp add: plainDecrypt_def plainEncrypt_def Let_def bytesOfString_append
      bytesOfString_stringOfBytes)

lemma char_of_65: "char_of (65 :: nat) = CHR ''A''"
  by code_simp

lemma char_of_97: "char_of (97 :: nat) = CHR ''a''"
  by code_simp

lemma stringOfBytes_sessionIdA: "stringOfBytes sessionIdA = replicate 24 CHR ''a''"
  by (simp add: stringOfBytes_def sessionIdA_def char_of_97)

lemma length_sessionIdA: "length sessionIdA = 24"
  by (simp add: sessionIdA_def)

text \<open>What the receiver decodes from A's message.\<close>

lemma decode_messageA:
  "decodeEphemeralMessage plainDeps (messageA t c doc) sharedKey =
     Decoded \<lparr>h_type = Some t, h_sessionId = replicate 24 CHR ''a'',
              h_sessionCounter = uint c, h_value = [22], h_publicKey = [65]\<rparr>"
  by (simp add: decodeEphemeralMessage_def messageA_def sealEphemeral_def plainDeps_def
      Let_def plainDecrypt_plainEncrypt idLength_def length_sessionIdA
      stringOfBytes_sessionIdA keyPairA_def bytesOfString_stringOfBytes)

lemma docId_messageA: "docId (publicData (messageA t c doc)) = doc"
  by (simp add: messageA_def sealEphemeral_def Let_def)

lemma sessionB_entry:
  "validSessions sessionB (to_base64 plainDeps [65]) =
     Some \<lparr>sessionId = replicate 24 CHR ''a'', sessionCounter = 5\<rparr>"
  by (simp add: sessionB_def plainDeps_def stringOfBytes_def char_of_65)

section \<open>Ephemeral messages\<close>

lemma verify_Decoded:
  "decodeEphemeralMessage d m key = Decoded h \<Longrightarrow>
   verifyAndDecryptEphemeralMessage d m key currentDocId s kp =
     (case handleDecoded d m currentDocId s kp h of
        None \<Rightarrow> errorResult ''SECSYNC_ERROR_36''
      | Some r \<Rightarrow> r)"
  by (simp add: verifyAndDecryptEphemeralMessage_def)

lemma handleDecoded_other_document:
  "docId (publicData m) \<noteq> currentDocId \<Longrightarrow>
   handleDecoded d m currentDocId s kp h = Some (onlyValidSessions (validSessions s))"
  by (simp add: handleDecoded_def)

lemmas messageTypes_defs =
  messageTypes_initialize_def messageTypes_proof_def messageTypes_proofAndRequestProof_def
  messageTypes_message_def

text \<open>
  A decoded header comes from a message whose signature verified and whose ciphertext
  decrypted: the hypothesis \<open>decodeEphemeralMessage d m key = Decoded h\<close> of the theorems
  below says that the message passed both and that its plaintext was cut into the header.
\<close>

lemma Decoded_signature_and_decryption:
  assumes "decodeEphemeralMessage d m key = Decoded h"
  shows "\<exists>c content.
           from_base64 d (pubKey (publicData m)) = Some (h_publicKey h)
           \<and> verifySignature d
                (nonce m, ciphertext m, string_to_base64 d (canonicalize d (publicData m)))
                (signature m) (h_publicKey h) = Some True
           \<and> from_base64 d (ciphertext m) = Some c
           \<and> decryptAead d c (string_to_base64 d (canonicalize d (publicData m))) key (nonce m)
               = Some content"
  using assms
  by (auto simp add: decodeEphemeralMessage_def Let_def
      split: option.splits if_splits prod.splits)

text \<open>
  C7, as the code has it. The header is cut from the plaintext (lines 63 to 71) before
  the document id is compared (lines 75 to 77), so the property needs one more condition
  than the specification gives it: the plaintext holds the header, that is, message type,
  session id and session counter are cut from it without an exception. Then an ephemeral
  message that passes signature verification and decryption but names another document
  than the current one is dropped silently: the result has the valid sessions as they were
  and nothing else, neither content nor proof nor error.
\<close>

theorem docId_mismatch_silently_dropped:
  assumes "decodeEphemeralMessage d m key = Decoded h"
    and "docId (publicData m) \<noteq> currentDocId"
  shows "verifyAndDecryptEphemeralMessage d m key currentDocId s kp =
           \<lparr>r_error = None, r_proof = None, r_requestProof = None,
            r_validSessions = Some (validSessions s), r_content = None\<rparr>"
  using assms
  by (simp add: verify_Decoded handleDecoded_other_document onlyValidSessions_def)

theorem docId_mismatch_silently_dropped_witness:
  "verifyAndDecryptEphemeralMessage plainDeps (messageA 3 7 ''other'') sharedKey ''doc''
       sessionB keyPairB =
     \<lparr>r_error = None, r_proof = None, r_requestProof = None,
      r_validSessions = Some (validSessions sessionB), r_content = None\<rparr>"
  by (rule docId_mismatch_silently_dropped [OF decode_messageA])
    (simp add: docId_messageA)

text \<open>
  Without that condition the property fails: A's message for another document, signed by A
  and decrypting under the shared key to a plaintext of 11 bytes, is answered with
  \<^verbatim>\<open>SECSYNC_ERROR_36\<close>, since the session id cannot be cut from it.
\<close>

theorem short_plaintext_counterexample:
  "from_base64 plainDeps (pubKey (publicData shortMessage)) = Some [65]
   \<and> verifySignature plainDeps
       (nonce shortMessage, ciphertext shortMessage,
        string_to_base64 plainDeps (canonicalize plainDeps (publicData shortMessage)))
       (signature shortMessage) [65] = Some True
   \<and> from_base64 plainDeps (ciphertext shortMessage) =
       Some (bytesOfString (ciphertext shortMessage))
   \<and> decryptAead plainDeps (bytesOfString (ciphertext shortMessage))
       (string_to_base64 plainDeps (canonicalize plainDeps (publicData shortMessage)))
       sharedKey (nonce shortMessage) = Some (3 # replicate 10 97)
   \<and> docId (publicData shortMessage) \<noteq> ''doc''
   \<and> verifyAndDecryptEphemeralMessage plainDeps shortMessage sharedKey ''doc''
       sessionB keyPairB =
     \<lparr>r_error = Some ''SECSYNC_ERROR_36'', r_proof = None, r_requestProof = None,
      r_validSessions = None, r_content = None\<rparr>"
proof -
  let ?ad = "string_to_base64 plainDeps (canonicalize plainDeps (publicData shortMessage))"
  have key: "from_base64 plainDeps (pubKey (publicData shortMessage)) = Some [65]"
    by (simp add: shortMessage_def sealEphemeral_def plainDeps_def Let_def keyPairA_def
        bytesOfString_stringOfBytes)
  have sig: "verifySignature plainDeps (nonce shortMessage, ciphertext shortMessage, ?ad)
      (signature shortMessage) [65] = Some True"
    by (simp add: shortMessage_def sealEphemeral_def plainDeps_def Let_def keyPairA_def)
  have ct: "from_base64 plainDeps (ciphertext shortMessage) =
      Some (bytesOfString (ciphertext shortMessage))"
    by (simp add: plainDeps_def)
  have dec: "decryptAead plainDeps (bytesOfString (ciphertext shortMessage)) ?ad sharedKey
      (nonce shortMessage) = Some (3 # replicate 10 97)"
    by (simp add: shortMessage_def sealEphemeral_def plainDeps_def Let_def
        plainDecrypt_plainEncrypt)
  have doc: "docId (publicData shortMessage) \<noteq> ''doc''"
    by (simp add: shortMessage_def sealEphemeral_def Let_def)
  have "decodeEphemeralMessage plainDeps shortMessage sharedKey = Thrown"
    using key sig ct dec
    by (simp add: decodeEphemeralMessage_def Let_def)
      (simp add: plainDeps_def idLength_def)
  then have "verifyAndDecryptEphemeralMessage plainDeps shortMessage sharedKey ''doc''
       sessionB keyPairB =
     \<lparr>r_error = Some ''SECSYNC_ERROR_36'', r_proof = None, r_requestProof = None,
      r_validSessions = None, r_content = None\<rparr>"
    by (simp add: verifyAndDecryptEphemeralMessage_def errorResult_def)
  with key sig ct dec doc show ?thesis
    by (intro conjI)
qed

text \<open>
  C10. A \<^verbatim>\<open>proof\<close> or \<^verbatim>\<open>proofAndRequestProof\<close> message whose session proof does not verify
  against the receiver's session id, the embedded session id and the sender's public key
  gives the valid sessions unchanged and nothing else: no error, no proof, no content, and
  the sender is not added.
\<close>

theorem invalid_proof_ignored:
  assumes "decodeEphemeralMessage d m key = Decoded h"
    and "h_type h = Some messageTypes_proof \<or> h_type h = Some messageTypes_proofAndRequestProof"
    and "verifyEphemeralSessionProof d (h_value h) (id_session s) (h_sessionId h) (h_publicKey h)
           = Some False"
  shows "verifyAndDecryptEphemeralMessage d m key currentDocId s kp =
           \<lparr>r_error = None, r_proof = None, r_requestProof = None,
            r_validSessions = Some (validSessions s), r_content = None\<rparr>"
  using assms
  by (auto simp add: verify_Decoded handleDecoded_def onlyValidSessions_def Let_def
      messageTypes_defs)

theorem invalid_proof_ignored_witness:
  "verifyAndDecryptEphemeralMessage plainDeps (messageA 1 0 ''doc'') sharedKey ''doc''
       (sessionB\<lparr>validSessions := Map.empty\<rparr>) keyPairB =
     \<lparr>r_error = None, r_proof = None, r_requestProof = None,
      r_validSessions = Some Map.empty, r_content = None\<rparr>"
proof -
  have "verifyAndDecryptEphemeralMessage plainDeps (messageA 1 0 ''doc'') sharedKey ''doc''
          (sessionB\<lparr>validSessions := Map.empty\<rparr>) keyPairB =
        \<lparr>r_error = None, r_proof = None, r_requestProof = None,
         r_validSessions = Some (validSessions (sessionB\<lparr>validSessions := Map.empty\<rparr>)),
         r_content = None\<rparr>"
    by (rule invalid_proof_ignored [OF decode_messageA])
      (simp_all add: messageTypes_defs plainDeps_def bytesOfString_def plainSign_def frame_def)
  then show ?thesis
    by simp
qed

text \<open>
  C2, as the code has it. The property needs one more condition than the specification
  gives it: the message names the current document. Then a \<^verbatim>\<open>message\<close> that passes
  signature verification and decryption,
  from a sender with a valid session of the same session id and stored counter \<open>c\<close>, with a
  session counter of at most \<open>c\<close>, gives \<^verbatim>\<open>SECSYNC_ERROR_23\<close> and nothing else: no content and
  no valid sessions to store.
\<close>

theorem replay_rejected:
  assumes "decodeEphemeralMessage d m key = Decoded h"
    and "docId (publicData m) = currentDocId"
    and "h_type h = Some messageTypes_message"
    and "validSessions s (to_base64 d (h_publicKey h)) =
           Some \<lparr>sessionId = h_sessionId h, sessionCounter = c\<rparr>"
    and "h_sessionCounter h \<le> c"
  shows "verifyAndDecryptEphemeralMessage d m key currentDocId s kp =
           \<lparr>r_error = Some ''SECSYNC_ERROR_23'', r_proof = None, r_requestProof = None,
            r_validSessions = None, r_content = None\<rparr>"
  using assms
  by (simp add: verify_Decoded handleDecoded_def errorResult_def Let_def messageTypes_defs)

theorem replay_rejected_witness:
  "verifyAndDecryptEphemeralMessage plainDeps (messageA 3 5 ''doc'') sharedKey ''doc''
       sessionB keyPairB =
     \<lparr>r_error = Some ''SECSYNC_ERROR_23'', r_proof = None, r_requestProof = None,
      r_validSessions = None, r_content = None\<rparr>"
  by (rule replay_rejected [OF decode_messageA, where c = 5])
    (simp_all add: docId_messageA messageTypes_defs sessionB_entry)

text \<open>
  Without that condition the property fails: A's message with the stored session id and
  counter 3, below the stored 5, but for another document, is not answered with
  \<^verbatim>\<open>SECSYNC_ERROR_23\<close>.
\<close>

theorem replay_other_document_counterexample:
  "decodeEphemeralMessage plainDeps (messageA 3 3 ''other'') sharedKey =
     Decoded \<lparr>h_type = Some messageTypes_message, h_sessionId = replicate 24 CHR ''a'',
              h_sessionCounter = 3, h_value = [22], h_publicKey = [65]\<rparr>
   \<and> validSessions sessionB (to_base64 plainDeps [65]) =
       Some \<lparr>sessionId = replicate 24 CHR ''a'', sessionCounter = 5\<rparr>
   \<and> r_error (verifyAndDecryptEphemeralMessage plainDeps (messageA 3 3 ''other'') sharedKey
        ''doc'' sessionB keyPairB) = None"
  by (simp add: decode_messageA sessionB_entry messageTypes_defs verify_Decoded
      docId_messageA handleDecoded_other_document onlyValidSessions_def)

text \<open>
  C8, as the code has it. With the same further condition, a \<^verbatim>\<open>message\<close> whose session
  counter is greater than the stored one, by any amount, is accepted: the result has the
  content, and valid sessions in which the sender's counter is the message's.
\<close>

theorem higher_counter_accepted:
  assumes "decodeEphemeralMessage d m key = Decoded h"
    and "docId (publicData m) = currentDocId"
    and "h_type h = Some messageTypes_message"
    and "validSessions s (to_base64 d (h_publicKey h)) =
           Some \<lparr>sessionId = h_sessionId h, sessionCounter = c\<rparr>"
    and "c < h_sessionCounter h"
  shows "verifyAndDecryptEphemeralMessage d m key currentDocId s kp =
           \<lparr>r_error = None, r_proof = None, r_requestProof = None,
            r_validSessions =
              Some ((validSessions s)(to_base64 d (h_publicKey h) \<mapsto>
                \<lparr>sessionId = h_sessionId h, sessionCounter = h_sessionCounter h\<rparr>)),
            r_content = Some (h_value h)\<rparr>"
  using assms
  by (simp add: verify_Decoded handleDecoded_def errorResult_def Let_def messageTypes_defs)

theorem higher_counter_accepted_witness:
  "verifyAndDecryptEphemeralMessage plainDeps (messageA 3 200 ''doc'') sharedKey ''doc''
       sessionB keyPairB =
     \<lparr>r_error = None, r_proof = None, r_requestProof = None,
      r_validSessions =
        Some ((validSessions sessionB)(''A'' \<mapsto>
          \<lparr>sessionId = replicate 24 CHR ''a'', sessionCounter = 200\<rparr>)),
      r_content = Some [22]\<rparr>"
proof -
  have "verifyAndDecryptEphemeralMessage plainDeps (messageA 3 200 ''doc'') sharedKey ''doc''
          sessionB keyPairB =
        \<lparr>r_error = None, r_proof = None, r_requestProof = None,
         r_validSessions =
           Some ((validSessions sessionB)(to_base64 plainDeps
               (h_publicKey \<lparr>h_type = Some 3, h_sessionId = replicate 24 CHR ''a'',
                  h_sessionCounter = uint (200 :: 8 word), h_value = [22],
                  h_publicKey = [65]\<rparr>) \<mapsto>
             \<lparr>sessionId = h_sessionId \<lparr>h_type = Some 3, h_sessionId = replicate 24 CHR ''a'',
                  h_sessionCounter = uint (200 :: 8 word), h_value = [22],
                  h_publicKey = [65]\<rparr>,
              sessionCounter = h_sessionCounter \<lparr>h_type = Some 3,
                  h_sessionId = replicate 24 CHR ''a'',
                  h_sessionCounter = uint (200 :: 8 word), h_value = [22],
                  h_publicKey = [65]\<rparr>\<rparr>)),
         r_content = Some (h_value \<lparr>h_type = Some 3, h_sessionId = replicate 24 CHR ''a'',
                  h_sessionCounter = uint (200 :: 8 word), h_value = [22],
                  h_publicKey = [65]\<rparr>)\<rparr>"
    by (rule higher_counter_accepted [OF decode_messageA, where c = 5])
      (simp_all add: docId_messageA messageTypes_defs sessionB_entry)
  then show ?thesis
    by (simp add: plainDeps_def stringOfBytes_def char_of_65)
qed

text \<open>
  Without that condition the property fails: A's message with the stored session id and
  counter 9, above the stored 5, but for another document, is not accepted: no content is
  returned and the valid sessions returned are the stored ones.
\<close>

theorem higher_counter_other_document_counterexample:
  "decodeEphemeralMessage plainDeps (messageA 3 9 ''other'') sharedKey =
     Decoded \<lparr>h_type = Some messageTypes_message, h_sessionId = replicate 24 CHR ''a'',
              h_sessionCounter = 9, h_value = [22], h_publicKey = [65]\<rparr>
   \<and> validSessions sessionB (to_base64 plainDeps [65]) =
       Some \<lparr>sessionId = replicate 24 CHR ''a'', sessionCounter = 5\<rparr>
   \<and> verifyAndDecryptEphemeralMessage plainDeps (messageA 3 9 ''other'') sharedKey
        ''doc'' sessionB keyPairB =
       \<lparr>r_error = None, r_proof = None, r_requestProof = None,
        r_validSessions = Some (validSessions sessionB), r_content = None\<rparr>"
  by (simp add: decode_messageA sessionB_entry messageTypes_defs verify_Decoded
      docId_messageA handleDecoded_other_document onlyValidSessions_def)

section \<open>The update codec\<close>

lemma signatureCorrect_plainDeps:
  "privateKey kp = publicKey kp \<Longrightarrow> signatureCorrect plainDeps kp"
  by (simp add: signatureCorrect_def plainDeps_def)

lemma aeadCorrect_plainDeps: "aeadCorrect plainDeps"
  by (simp add: aeadCorrect_def plainDeps_def plainDecrypt_plainEncrypt)

text \<open>A created update opens under the author's key.\<close>

lemma openUpdate_createUpdate:
  assumes "signatureCorrect d kp"
    and "aeadCorrect d"
    and "from_base64 d authorPubKey = Some (publicKey kp)"
  shows "openUpdate d (createUpdate d m pd k kp c n) k authorPubKey = Some m"
proof -
  let ?ad = "string_to_base64 d (canonicalizeUpdate d (pd\<lparr>clock := c\<rparr>))"
  let ?ct = "encryptAead d m ?ad k n"
  have sig: "verifySignature d (n, ?ct, ?ad) (signDetached d (n, ?ct, ?ad) (privateKey kp))
               (publicKey kp) = Some True"
    using assms(1) by (simp add: signatureCorrect_def)
  have "Option.bind (from_base64 d ?ct) (\<lambda>c'. decryptAead d c' ?ad k n) = Some m"
    using assms(2) by (simp add: aeadCorrect_def)
  then obtain c' where "from_base64 d ?ct = Some c'" and "decryptAead d c' ?ad k n = Some m"
    by (cases "from_base64 d ?ct") simp_all
  with sig assms(3) show ?thesis
    by (simp add: openUpdate_def createUpdate_def Let_def)
qed



lemma verifyAndDecryptUpdate_opened:
  "openUpdate d u k authorPubKey = Some content \<Longrightarrow>
   verifyAndDecryptUpdate d u k snap authorPubKey cur skipHigher skipOwn =
     (if refSnapshotId (publicData u) \<noteq> snap then updateError ''SECSYNC_ERROR_213''
      else if skipHigher \<and> clock (publicData u) < cur then updateIgnored
      else if skipOwn \<and> pubKey (publicData u) = authorPubKey then updateIgnored
      else if clock (publicData u) \<noteq> cur + 1 then updateError ''SECSYNC_ERROR_214''
      else \<lparr>u_error = None, u_content = Some content, u_clock = Some (clock (publicData u))\<rparr>)"
  by (simp add: verifyAndDecryptUpdate_def)

lemma createUpdate_fields:
  "publicData (createUpdate d m pd k kp c n) = pd\<lparr>clock := c\<rparr>"
  "nonce (createUpdate d m pd k kp c n) = n"
  "ciphertext (createUpdate d m pd k kp c n) =
     encryptAead d m (string_to_base64 d (canonicalizeUpdate d (pd\<lparr>clock := c\<rparr>))) k n"
  "signature (createUpdate d m pd k kp c n) =
     signDetached d
       (n, encryptAead d m (string_to_base64 d (canonicalizeUpdate d (pd\<lparr>clock := c\<rparr>))) k n,
        string_to_base64 d (canonicalizeUpdate d (pd\<lparr>clock := c\<rparr>)))
       (privateKey kp)"
  by (simp_all add: createUpdate_def Let_def)

text \<open>
  The round trip: where the two primitives are correct, a created update, verified with the
  same key, its own \<^verbatim>\<open>refSnapshotId\<close>, the author's public key and the current clock \<open>c - 1\<close>,
  gives its content and the clock \<open>c\<close>.
\<close>

lemma createUpdate_round_trip:
  assumes "signatureCorrect d kp"
    and "aeadCorrect d"
    and "from_base64 d authorPubKey = Some (publicKey kp)"
  shows "verifyAndDecryptUpdate d (createUpdate d m pd k kp c n) k (refSnapshotId pd)
           authorPubKey (c - 1) skipHigher False =
         \<lparr>u_error = None, u_content = Some m, u_clock = Some c\<rparr>"
  using openUpdate_createUpdate [OF assms, of m pd k c n]
  by (simp add: verifyAndDecryptUpdate_opened createUpdate_fields)

lemma keyPairA_keys: "privateKey keyPairA = publicKey keyPairA"
  by (simp add: keyPairA_def)

lemma from_base64_A: "from_base64 plainDeps ''A'' = Some (publicKey keyPairA)"
  by (simp add: plainDeps_def bytesOfString_def keyPairA_def)

lemma openUpdate_updateA: "openUpdate plainDeps (updateA c) sharedKey ''A'' = Some helloWorld"
  unfolding updateA_def
  by (rule openUpdate_createUpdate [where kp = keyPairA])
    (simp_all add: signatureCorrect_plainDeps keyPairA_keys aeadCorrect_plainDeps from_base64_A)

lemma publicData_updateA: "publicData (updateA c) = publicDataA\<lparr>clock := c\<rparr>"
  by (simp add: updateA_def createUpdate_fields)

text \<open>
  C3. An update that verifies and decrypts, whose \<^verbatim>\<open>refSnapshotId\<close> is the caller's active
  snapshot id, checked with both skip flags false: the result is the content and the clock
  if the clock is \<^verbatim>\<open>currentClock + 1\<close>, and \<^verbatim>\<open>SECSYNC_ERROR_214\<close> with neither content nor
  clock if it is not.
\<close>

theorem clock_must_be_next:
  assumes "openUpdate d u key authorPubKey = Some content"
    and "refSnapshotId (publicData u) = currentActiveSnapshotId"
  shows "verifyAndDecryptUpdate d u key currentActiveSnapshotId authorPubKey currentClock
           False False =
         (if clock (publicData u) = currentClock + 1
          then \<lparr>u_error = None, u_content = Some content,
                u_clock = Some (clock (publicData u))\<rparr>
          else \<lparr>u_error = Some ''SECSYNC_ERROR_214'', u_content = None, u_clock = None\<rparr>)"
  using assms by (simp add: verifyAndDecryptUpdate_opened updateError_def)

theorem clock_must_be_next_witness:
  "verifyAndDecryptUpdate plainDeps (updateA 10) sharedKey ''snapshot-1'' ''A'' 9 False False =
     \<lparr>u_error = None, u_content = Some helloWorld, u_clock = Some 10\<rparr>
   \<and> verifyAndDecryptUpdate plainDeps (updateA 10) sharedKey ''snapshot-1'' ''A'' 10 False False =
     \<lparr>u_error = Some ''SECSYNC_ERROR_214'', u_content = None, u_clock = None\<rparr>"
proof -
  have ref: "refSnapshotId (publicData (updateA 10)) = ''snapshot-1''"
    by (simp add: publicData_updateA publicDataA_def)
  show ?thesis
    using clock_must_be_next [OF openUpdate_updateA ref, of 9]
      clock_must_be_next [OF openUpdate_updateA ref, of 10]
    by (simp add: publicData_updateA)
qed




section \<open>The server's createUpdate\<close>

text \<open>
  The arithmetic of the code is exact on the safe integers, those of a magnitude below
  \<open>2 ^ 53\<close>, and no further: \<open>2 ^ 53 + 1\<close> is \<open>2 ^ 53\<close> again.
\<close>

lemma ulp_small: "a < 2 ^ 53 \<Longrightarrow> ulp a = 1"
  by (simp add: ulp.simps)

lemma toDouble_small: "\<bar>m\<bar> < 2 ^ 53 \<Longrightarrow> toDouble m = m"
  by (simp add: toDouble_def ulp_small)

lemma ulp_2_53: "ulp 9007199254740992 = 2"
  by (simp add: ulp.simps [of 9007199254740992] ulp.simps [of 4503599627370496])

lemma ulp_2_53_1: "ulp 9007199254740993 = 2"
  by (simp add: ulp.simps [of 9007199254740993] ulp.simps [of 4503599627370496])

lemma toDouble_2_53: "toDouble 9007199254740992 = 9007199254740992"
  by (simp add: toDouble_def ulp_2_53)

lemma toDouble_2_53_1: "toDouble 9007199254740993 = 9007199254740992"
  by (simp add: toDouble_def ulp_2_53_1)

lemma jsPlus1_safe:
  assumes "\<bar>n\<bar> < 2 ^ 53"
  shows "jsPlus1 n = n + 1"
proof (cases "n + 1 = 2 ^ 53")
  case True
  then have "toDouble (n + 1) = n + 1"
    by (simp add: toDouble_2_53)
  with assms show ?thesis
    by (simp add: jsPlus1_def toDouble_small)
next
  case False
  with assms have "\<bar>n + 1\<bar> < 2 ^ 53"
    by simp
  with assms show ?thesis
    by (simp add: jsPlus1_def toDouble_small)
qed

lemma jsPlus1_2_53: "jsPlus1 9007199254740992 = 9007199254740992"
  by (simp add: jsPlus1_def toDouble_2_53 toDouble_2_53_1)

lemma jsPlus1_4: "jsPlus1 4 = 5"
  using jsPlus1_safe [of 4] by simp

lemma jsPlus1_7: "jsPlus1 7 = 8"
  using jsPlus1_safe [of 7] by simp

lemma transaction_Inl: "body db = Inl e \<Longrightarrow> transaction body db = (Inl e, db)"
  by (simp add: transaction_def)

lemma transaction_Inr: "body db = Inr (r, db') \<Longrightarrow> transaction body db = (Inr r, db')"
  by (simp add: transaction_def)

text \<open>A throw leaves the database as it was.\<close>

lemma database_createUpdate_throw:
  "fst (database_createUpdate db update) = Inl e \<Longrightarrow> snd (database_createUpdate db update) = db"
  by (auto simp add: database_createUpdate_def transaction_def split: sum.splits prod.splits)

text \<open>The update is rejected unless its snapshot exists and is its document's active one.\<close>

lemma createUpdateTransaction_active:
  assumes "createUpdateTransaction db update = Inr (row, db')"
  shows "\<exists>snapshot document.
           snapshots db (refSnapshotId (publicData update)) = Some snapshot
           \<and> documents db (row_documentId snapshot) = Some document
           \<and> row_activeSnapshotId document = Some (refSnapshotId (publicData update))"
  using assms
  by (auto simp add: createUpdateTransaction_def split: option.splits if_splits sum.splits)

lemma checkClocks_object:
  "checkClocks (ClocksObject obj) update = Inr clocks' \<Longrightarrow>
   clocks' = ClocksObject (obj(pubKey (publicData update) \<mapsto> clock (publicData update)))
   \<and> (case obj (pubKey (publicData update)) of
         None \<Rightarrow> clock (publicData update) = 0
       | Some stored \<Rightarrow> clock (publicData update) = jsPlus1 stored)"
  by (auto simp add: checkClocks_def readProperty_def
      split: option.splits if_splits JsProperty.splits)

lemma createUpdateTransaction_success:
  assumes "createUpdateTransaction db update = Inr (row, db')"
    and "snapshots db (refSnapshotId (publicData update)) = Some snapshot"
  shows "\<exists>clocks'. checkClocks (row_clocks snapshot) update = Inr clocks'
           \<and> row = \<lparr>upd_data = update,
                    upd_version = jsPlus1 (row_latestVersion snapshot),
                    upd_snapshotId = refSnapshotId (publicData update),
                    upd_snapshotVersion = clock (publicData update),
                    upd_pubKey = pubKey (publicData update)\<rparr>
           \<and> db' = db\<lparr>snapshots := (snapshots db)(refSnapshotId (publicData update) \<mapsto>
                         snapshot\<lparr>row_latestVersion := jsPlus1 (row_latestVersion snapshot),
                                  row_clocks := clocks'\<rparr>),
                      updates := updates db @ [row]\<rparr>"
  using assms
  by (auto simp add: createUpdateTransaction_def Let_def
      split: option.splits if_splits sum.splits)

lemma database_createUpdate_Inr:
  "database_createUpdate db update = (Inr row, db') \<longleftrightarrow>
   createUpdateTransaction db update = Inr (row, db')"
  by (auto simp add: database_createUpdate_def transaction_def split: sum.splits prod.splits)

text \<open>
  C5, as the code has it. For every update submitted to the server's \<^verbatim>\<open>createUpdate\<close>:
  a throw persists nothing; the update is rejected unless its \<^verbatim>\<open>refSnapshotId\<close> names a
  snapshot that is its document's active one; when the snapshot's \<^verbatim>\<open>clocks\<close> value is an
  object, the update is rejected if the author has no entry and the clock is not 0, and if
  the author has an entry and the clock is not the stored clock plus one as the code adds
  it, which for a stored clock that is a safe integer is the stored clock plus one; on
  success the author's stored clock is the update's clock; on every success the persisted
  update has the version \<^verbatim>\<open>latestVersion + 1\<close> as the code adds it, which is also the
  snapshot's new \<^verbatim>\<open>latestVersion\<close>, and which for a safe integer is the previous
  \<^verbatim>\<open>latestVersion\<close> plus one.
\<close>

theorem server_createUpdate:
  assumes "r = database_createUpdate db update"
    and "ref = refSnapshotId (publicData update)"
    and "author = pubKey (publicData update)"
    and "c = clock (publicData update)"
  shows "(\<forall>e. fst r = Inl e \<longrightarrow> snd r = db)
       \<and> (\<not> (\<exists>snapshot document. snapshots db ref = Some snapshot
               \<and> documents db (row_documentId snapshot) = Some document
               \<and> row_activeSnapshotId document = Some ref) \<longrightarrow> isl (fst r))
       \<and> (\<forall>snapshot obj. snapshots db ref = Some snapshot
             \<and> row_clocks snapshot = ClocksObject obj \<longrightarrow>
             (obj author = None \<and> c \<noteq> 0 \<longrightarrow> isl (fst r))
           \<and> (\<forall>stored. obj author = Some stored \<and> c \<noteq> jsPlus1 stored \<longrightarrow> isl (fst r))
           \<and> (\<forall>stored. obj author = Some stored \<and> \<bar>stored\<bar> < 2 ^ 53 \<and> c \<noteq> stored + 1 \<longrightarrow>
                 isl (fst r))
           \<and> (\<forall>row. fst r = Inr row \<longrightarrow>
                 (\<exists>snapshot'. snapshots (snd r) ref = Some snapshot'
                    \<and> row_clocks snapshot' = ClocksObject (obj(author \<mapsto> c)))))
       \<and> (\<forall>snapshot row. snapshots db ref = Some snapshot \<and> fst r = Inr row \<longrightarrow>
             upd_version row = jsPlus1 (row_latestVersion snapshot)
           \<and> (\<bar>row_latestVersion snapshot\<bar> < 2 ^ 53 \<longrightarrow>
                 upd_version row = row_latestVersion snapshot + 1)
           \<and> upd_data row = update
           \<and> updates (snd r) = updates db @ [row]
           \<and> (\<exists>snapshot'. snapshots (snd r) ref = Some snapshot'
                 \<and> row_latestVersion snapshot' = upd_version row))"
proof (intro conjI allI impI)
  fix e
  assume "fst r = Inl e"
  then show "snd r = db"
    using assms(1) by (simp add: database_createUpdate_throw)
next
  assume inactive: "\<not> (\<exists>snapshot document. snapshots db ref = Some snapshot
               \<and> documents db (row_documentId snapshot) = Some document
               \<and> row_activeSnapshotId document = Some ref)"
  show "isl (fst r)"
  proof (cases "fst r")
    case (Inl e)
    then show ?thesis by simp
  next
    case (Inr row)
    then have "database_createUpdate db update = (Inr row, snd r)"
      using assms(1) by (metis prod.collapse)
    then have "createUpdateTransaction db update = Inr (row, snd r)"
      by (simp add: database_createUpdate_Inr)
    from createUpdateTransaction_active [OF this] inactive assms(2) show ?thesis
      by blast
  qed
next
  fix snapshot obj
  assume h: "snapshots db ref = Some snapshot \<and> row_clocks snapshot = ClocksObject obj"
    and noEntry: "obj author = None \<and> c \<noteq> 0"
  show "isl (fst r)"
  proof (cases "fst r")
    case (Inl e)
    then show ?thesis by simp
  next
    case (Inr row)
    then have "database_createUpdate db update = (Inr row, snd r)"
      using assms(1) by (metis prod.collapse)
    then have "createUpdateTransaction db update = Inr (row, snd r)"
      by (simp add: database_createUpdate_Inr)
    from createUpdateTransaction_success [OF this] h assms(2)
    obtain clocks' where "checkClocks (ClocksObject obj) update = Inr clocks'"
      by auto
    from checkClocks_object [OF this] noEntry assms(3,4) show ?thesis
      by simp
  qed
next
  fix snapshot obj stored
  assume h: "snapshots db ref = Some snapshot \<and> row_clocks snapshot = ClocksObject obj"
    and entry: "obj author = Some stored \<and> c \<noteq> jsPlus1 stored"
  show "isl (fst r)"
  proof (cases "fst r")
    case (Inl e)
    then show ?thesis by simp
  next
    case (Inr row)
    then have "database_createUpdate db update = (Inr row, snd r)"
      using assms(1) by (metis prod.collapse)
    then have "createUpdateTransaction db update = Inr (row, snd r)"
      by (simp add: database_createUpdate_Inr)
    from createUpdateTransaction_success [OF this] h assms(2)
    obtain clocks' where "checkClocks (ClocksObject obj) update = Inr clocks'"
      by auto
    from checkClocks_object [OF this] entry assms(3,4) show ?thesis
      by simp
  qed
next
  fix snapshot obj stored
  assume h: "snapshots db ref = Some snapshot \<and> row_clocks snapshot = ClocksObject obj"
    and entry: "obj author = Some stored \<and> \<bar>stored\<bar> < 2 ^ 53 \<and> c \<noteq> stored + 1"
  show "isl (fst r)"
  proof (cases "fst r")
    case (Inl e)
    then show ?thesis by simp
  next
    case (Inr row)
    then have "database_createUpdate db update = (Inr row, snd r)"
      using assms(1) by (metis prod.collapse)
    then have "createUpdateTransaction db update = Inr (row, snd r)"
      by (simp add: database_createUpdate_Inr)
    from createUpdateTransaction_success [OF this] h assms(2)
    obtain clocks' where "checkClocks (ClocksObject obj) update = Inr clocks'"
      by auto
    from checkClocks_object [OF this] entry assms(3,4) show ?thesis
      by (simp add: jsPlus1_safe)
  qed
next
  fix snapshot obj row
  assume h: "snapshots db ref = Some snapshot \<and> row_clocks snapshot = ClocksObject obj"
    and ok: "fst r = Inr row"
  from ok have "database_createUpdate db update = (Inr row, snd r)"
    using assms(1) by (metis prod.collapse)
  then have tx: "createUpdateTransaction db update = Inr (row, snd r)"
    by (simp add: database_createUpdate_Inr)
  from createUpdateTransaction_success [OF tx] h assms(2)
  obtain clocks' where chk: "checkClocks (ClocksObject obj) update = Inr clocks'"
    and db': "snd r = db\<lparr>snapshots := (snapshots db)(ref \<mapsto>
                         snapshot\<lparr>row_latestVersion := jsPlus1 (row_latestVersion snapshot),
                                  row_clocks := clocks'\<rparr>),
                      updates := updates db @ [row]\<rparr>"
    by auto
  from checkClocks_object [OF chk] assms(3,4)
  have "clocks' = ClocksObject (obj(author \<mapsto> c))"
    by simp
  with db' show "\<exists>snapshot'. snapshots (snd r) ref = Some snapshot'
                    \<and> row_clocks snapshot' = ClocksObject (obj(author \<mapsto> c))"
    by simp
next
  fix snapshot row
  assume h: "snapshots db ref = Some snapshot \<and> fst r = Inr row"
  then have "database_createUpdate db update = (Inr row, snd r)"
    using assms(1) by (metis prod.collapse)
  then have tx: "createUpdateTransaction db update = Inr (row, snd r)"
    by (simp add: database_createUpdate_Inr)
  from createUpdateTransaction_success [OF tx] h assms(2)
  obtain clocks' where row: "row = \<lparr>upd_data = update,
                    upd_version = jsPlus1 (row_latestVersion snapshot),
                    upd_snapshotId = refSnapshotId (publicData update),
                    upd_snapshotVersion = clock (publicData update),
                    upd_pubKey = pubKey (publicData update)\<rparr>"
    and db': "snd r = db\<lparr>snapshots := (snapshots db)(ref \<mapsto>
                         snapshot\<lparr>row_latestVersion := jsPlus1 (row_latestVersion snapshot),
                                  row_clocks := clocks'\<rparr>),
                      updates := updates db @ [row]\<rparr>"
    by auto
  from row show "upd_version row = jsPlus1 (row_latestVersion snapshot)"
    by simp
  from row show "upd_version row = row_latestVersion snapshot + 1"
    if "\<bar>row_latestVersion snapshot\<bar> < 2 ^ 53"
    using that by (simp add: jsPlus1_safe)
  from row show "upd_data row = update"
    by simp
  from db' show "updates (snd r) = updates db @ [row]"
    by simp
  from db' row show "\<exists>snapshot'. snapshots (snd r) ref = Some snapshot'
                 \<and> row_latestVersion snapshot' = upd_version row"
    by simp
qed

lemma publicDataA_fields:
  "refSnapshotId (publicDataA\<lparr>clock := c\<rparr>) = ''snapshot-1''"
  "pubKey (publicDataA\<lparr>clock := c\<rparr>) = ''A''"
  "clock (publicDataA\<lparr>clock := c\<rparr>) = c"
  by (simp_all add: publicDataA_def)

lemma checkClocks_A_next:
  "checkClocks (ClocksObject [''A'' \<mapsto> 4]) (updateA 5) = Inr (ClocksObject [''A'' \<mapsto> 5])"
  by (simp add: checkClocks_def readProperty_def publicData_updateA publicDataA_fields
      jsPlus1_4)

lemma createUpdateTransaction_databaseWith:
  "createUpdateTransaction (databaseWith clocks) (updateA c) =
     (case checkClocks clocks (updateA c) of
        Inl e \<Rightarrow> Inl e
      | Inr clocks' \<Rightarrow>
          Inr (\<lparr>upd_data = updateA c, upd_version = 8, upd_snapshotId = ''snapshot-1'',
                upd_snapshotVersion = c, upd_pubKey = ''A''\<rparr>,
               (databaseWith clocks)
                 \<lparr>snapshots := (snapshots (databaseWith clocks))(''snapshot-1'' \<mapsto>
                     \<lparr>row_latestVersion = 8, row_clocks = clocks',
                      row_documentId = ''document-1''\<rparr>),
                  updates := [\<lparr>upd_data = updateA c, upd_version = 8,
                      upd_snapshotId = ''snapshot-1'', upd_snapshotVersion = c,
                      upd_pubKey = ''A''\<rparr>]\<rparr>))"
  by (simp add: createUpdateTransaction_def databaseWith_def publicData_updateA
      publicDataA_fields jsPlus1_7 Let_def split: sum.splits)

lemma checkClocks_A_2_53:
  "checkClocks (ClocksObject [''A'' \<mapsto> 9007199254740992]) (updateA 9007199254740992) =
     Inr (ClocksObject [''A'' \<mapsto> 9007199254740992])"
  by (simp add: checkClocks_def readProperty_def publicData_updateA publicDataA_fields
      jsPlus1_2_53)

text \<open>
  A has the stored clock 4 on the active snapshot, at version 7: the update with clock 7 is
  rejected and nothing is persisted; the update with clock 5 is saved with version 8 and
  A's stored clock becomes 5. Where A's stored clock is \<open>2 ^ 53\<close>, the update with the clock
  \<open>2 ^ 53 + 2\<close> is rejected.
\<close>

theorem server_createUpdate_witness:
  "isl (fst (database_createUpdate (databaseWith (ClocksObject [''A'' \<mapsto> 4])) (updateA 7)))
   \<and> snd (database_createUpdate (databaseWith (ClocksObject [''A'' \<mapsto> 4])) (updateA 7)) =
       databaseWith (ClocksObject [''A'' \<mapsto> 4])
   \<and> upd_version (projr (fst (database_createUpdate
         (databaseWith (ClocksObject [''A'' \<mapsto> 4])) (updateA 5)))) = 8
   \<and> map_option row_clocks (snapshots (snd (database_createUpdate
         (databaseWith (ClocksObject [''A'' \<mapsto> 4])) (updateA 5))) ''snapshot-1'') =
       Some (ClocksObject [''A'' \<mapsto> 5])
   \<and> isl (fst (database_createUpdate
         (databaseWith (ClocksObject [''A'' \<mapsto> 9007199254740992]))
         (updateA 9007199254740994)))"
proof -
  let ?db = "databaseWith (ClocksObject [''A'' \<mapsto> 4])"
  let ?snapshot = "\<lparr>row_latestVersion = 7, row_clocks = ClocksObject [''A'' \<mapsto> 4],
                    row_documentId = ''document-1''\<rparr>"
  let ?row = "\<lparr>upd_data = updateA 5, upd_version = 8, upd_snapshotId = ''snapshot-1'',
                upd_snapshotVersion = 5, upd_pubKey = ''A''\<rparr>"
  let ?big = "databaseWith (ClocksObject [''A'' \<mapsto> 9007199254740992])"
  let ?bigSnapshot = "\<lparr>row_latestVersion = 7,
                       row_clocks = ClocksObject [''A'' \<mapsto> 9007199254740992],
                       row_documentId = ''document-1''\<rparr>"
  have snap: "snapshots ?db ''snapshot-1'' = Some ?snapshot"
    by (simp add: databaseWith_def)
  have bigSnap: "snapshots ?big ''snapshot-1'' = Some ?bigSnapshot"
    by (simp add: databaseWith_def)
  have saved: "fst (database_createUpdate ?db (updateA 5)) = Inr ?row"
    by (simp add: database_createUpdate_def transaction_def
        createUpdateTransaction_databaseWith checkClocks_A_next)
  have pd: "refSnapshotId (publicData (updateA c)) = ''snapshot-1''"
    "pubKey (publicData (updateA c)) = ''A''" "clock (publicData (updateA c)) = c" for c
    by (simp_all add: publicData_updateA publicDataA_fields)
  note seven = server_createUpdate [OF refl refl refl refl, of ?db "updateA 7", unfolded pd]
  note five = server_createUpdate [OF refl refl refl refl, of ?db "updateA 5", unfolded pd]
  note big = server_createUpdate [OF refl refl refl refl, of ?big "updateA 9007199254740994",
      unfolded pd]
  have "obj ''A'' = Some stored \<and> \<bar>stored\<bar> < 2 ^ 53 \<and> (7 :: int) \<noteq> stored + 1 \<longrightarrow>
        isl (fst (database_createUpdate ?db (updateA 7)))"
    if "obj = [''A'' \<mapsto> 4 :: int]" for obj stored
    using seven [THEN conjunct2, THEN conjunct2, THEN conjunct1, rule_format, of ?snapshot obj,
        THEN conjunct2, THEN conjunct2, THEN conjunct1, rule_format, of stored] snap that
    by simp
  from this [of "[''A'' \<mapsto> 4]" 4]
  have rejected: "isl (fst (database_createUpdate ?db (updateA 7)))"
    by simp
  then obtain e where "fst (database_createUpdate ?db (updateA 7)) = Inl e"
    by (auto simp add: isl_def)
  with seven [THEN conjunct1, rule_format, of e]
  have unchanged: "snd (database_createUpdate ?db (updateA 7)) = ?db"
    by simp
  from five [THEN conjunct2, THEN conjunct2, THEN conjunct2, rule_format, of ?snapshot ?row,
      THEN conjunct2, THEN conjunct1] snap saved
  have version: "upd_version ?row = row_latestVersion ?snapshot + 1"
    by simp
  from five [THEN conjunct2, THEN conjunct2, THEN conjunct1, rule_format,
      of ?snapshot "[''A'' \<mapsto> 4]", THEN conjunct2, THEN conjunct2, THEN conjunct2,
      rule_format, of ?row] snap saved
  obtain snapshot' where "snapshots (snd (database_createUpdate ?db (updateA 5))) ''snapshot-1''
      = Some snapshot'" and "row_clocks snapshot' = ClocksObject ([''A'' \<mapsto> 4](''A'' \<mapsto> 5))"
    by auto
  then have stored: "map_option row_clocks (snapshots (snd (database_createUpdate ?db
      (updateA 5))) ''snapshot-1'') = Some (ClocksObject [''A'' \<mapsto> 5])"
    by simp
  have "obj ''A'' = Some stored \<and> (9007199254740994 :: int) \<noteq> jsPlus1 stored \<longrightarrow>
        isl (fst (database_createUpdate ?big (updateA 9007199254740994)))"
    if "obj = [''A'' \<mapsto> 9007199254740992 :: int]" for obj stored
    using big [THEN conjunct2, THEN conjunct2, THEN conjunct1, rule_format,
        of ?bigSnapshot obj, THEN conjunct2, THEN conjunct1, rule_format, of stored]
      bigSnap that
    by auto
  from this [of "[''A'' \<mapsto> 9007199254740992]" 9007199254740992]
  have bigRejected: "isl (fst (database_createUpdate ?big (updateA 9007199254740994)))"
    by (simp add: jsPlus1_2_53)
  from rejected unchanged saved version stored bigRejected show ?thesis
    by simp
qed

text \<open>
  Where the \<^verbatim>\<open>clocks\<close> value of the snapshot is not an object (an array, say), no clock is
  checked: A has no stored clock there, the update has the clock 5, not 0, and it is saved,
  with the \<^verbatim>\<open>clocks\<close> value left as it was. And where A's stored clock is \<open>2 ^ 53\<close>, which
  the code's \<^verbatim>\<open>+ 1\<close> leaves as it is, the update with the clock \<open>2 ^ 53\<close>, not \<open>2 ^ 53 + 1\<close>, is
  saved.
\<close>

theorem clocks_not_checked_counterexample:
  "database_createUpdate (databaseWith NotAnObject) (updateA 5) =
     (Inr \<lparr>upd_data = updateA 5, upd_version = 8, upd_snapshotId = ''snapshot-1'',
           upd_snapshotVersion = 5, upd_pubKey = ''A''\<rparr>,
      (databaseWith NotAnObject)
        \<lparr>snapshots := (snapshots (databaseWith NotAnObject))(''snapshot-1'' \<mapsto>
           \<lparr>row_latestVersion = 8, row_clocks = NotAnObject,
            row_documentId = ''document-1''\<rparr>),
         updates := [\<lparr>upd_data = updateA 5, upd_version = 8, upd_snapshotId = ''snapshot-1'',
           upd_snapshotVersion = 5, upd_pubKey = ''A''\<rparr>]\<rparr>)
   \<and> (9007199254740992 :: int) \<noteq> 9007199254740992 + 1
   \<and> fst (database_createUpdate
        (databaseWith (ClocksObject [''A'' \<mapsto> 9007199254740992]))
        (updateA 9007199254740992)) =
     Inr \<lparr>upd_data = updateA 9007199254740992, upd_version = 8,
          upd_snapshotId = ''snapshot-1'', upd_snapshotVersion = 9007199254740992,
          upd_pubKey = ''A''\<rparr>"
  by (simp add: database_createUpdate_def transaction_def createUpdateTransaction_databaseWith
      checkClocks_A_2_53)
    (simp add: checkClocks_def)

section \<open>The document message\<close>










text \<open>
  A \<^verbatim>\<open>document\<close> message whose snapshot is of an author that \<^verbatim>\<open>isValidClient\<close> does not
  accept makes the machine \<^verbatim>\<open>failed\<close>, with \<^verbatim>\<open>documentDecryptionState = failed\<close>, whatever
  the snapshot and the updates are.
\<close>

lemma invalid_collaborator_fails:
  assumes "cfg_isValidClient cfg (pubKey (publicData snapshot)) \<noteq> Some True"
  shows "step d cfg (Connected, ctx) (INCOMING_DOCUMENT snapshot us) =
           (FailedState, ctx\<lparr>ctx_documentDecryptionState := Failed\<rparr>)"
  using assms by (simp add: handleDocument_def)







section \<open>The error buffers\<close>

lemma length_addError: "length (addError e errors) \<le> 20"
  by (simp add: addError_def)

lemma take_append_take: "take n (xs @ take n ys) = take n (xs @ ys)"
  by (simp add: min_def)

text \<open>An error added to the last 20 of a log gives the last 20 of the longer log.\<close>

lemma addError_take: "addError e (take 20 (rev log)) = take 20 (rev (log @ [e]))"
  unfolding addError_def using take_append_take [of 20 "[e]" "rev log"] by simp

text \<open>What one event does to the two buffers.\<close>

lemma handleDocument_buffers:
  "ctx_ephemeralMessageReceivingErrors (snd (handleDocument d cfg ctx snapshot us)) =
     ctx_ephemeralMessageReceivingErrors ctx
   \<and> ctx_ephemeralMessageAuthoringErrors (snd (handleDocument d cfg ctx snapshot us)) =
     ctx_ephemeralMessageAuthoringErrors ctx"
  by (simp add: handleDocument_def Let_def split: option.splits prod.splits)

lemma handleEphemeralMessage_buffers:
  "ctx_ephemeralMessageReceivingErrors (handleEphemeralMessage d cfg ctx m) =
     (case errorOf d cfg ctx m of
        None \<Rightarrow> ctx_ephemeralMessageReceivingErrors ctx
      | Some e \<Rightarrow> addError e (ctx_ephemeralMessageReceivingErrors ctx))
   \<and> ctx_ephemeralMessageAuthoringErrors (handleEphemeralMessage d cfg ctx m) =
     ctx_ephemeralMessageAuthoringErrors ctx"
  by (simp add: handleEphemeralMessage_def errorOf_def Let_def)

lemma step_receiving:
  "ctx_ephemeralMessageReceivingErrors (snd (step d cfg s ev)) =
     (if resets s ev then []
      else case receivedError d cfg s ev of
             None \<Rightarrow> ctx_ephemeralMessageReceivingErrors (snd s)
           | Some e \<Rightarrow> addError e (ctx_ephemeralMessageReceivingErrors (snd s)))"
proof (cases s)
  case (Pair st ctx)
  show ?thesis
    unfolding Pair
    by (cases ev; cases st)
      (simp_all add: resets_def receivedError_def resetContext_def handleDocument_buffers
        handleEphemeralMessage_buffers split: option.splits)
qed

lemma step_authoring:
  "ctx_ephemeralMessageAuthoringErrors (snd (step d cfg s ev)) =
     (if resets s ev then []
      else case authoredError s ev of
             None \<Rightarrow> ctx_ephemeralMessageAuthoringErrors (snd s)
           | Some e \<Rightarrow> addError e (ctx_ephemeralMessageAuthoringErrors (snd s)))"
proof (cases s)
  case (Pair st ctx)
  show ?thesis
    unfolding Pair
    by (cases ev; cases st)
      (simp_all add: resets_def authoredError_def resetContext_def handleDocument_buffers
        handleEphemeralMessage_buffers)
qed

lemma buffer_logged:
  assumes "buffer = take 20 (rev log)"
  shows "(if reset then []
          else case err of None \<Rightarrow> buffer | Some e \<Rightarrow> addError e buffer) =
         take 20 (rev (logged reset err log))"
  using assms by (cases err) (simp_all add: logged_def addError_take)

text \<open>
  A buffer that holds the last 20 errors of a log holds, after any events, the last 20
  errors of the log that these events leave.
\<close>

lemma run_receiving:
  assumes "ctx_ephemeralMessageReceivingErrors (snd s) = take 20 (rev log)"
  shows "ctx_ephemeralMessageReceivingErrors (snd (run d cfg s evs)) =
           take 20 (rev (errorsReceived d cfg s evs log))"
  using assms unfolding run_def
proof (induction evs arbitrary: s log)
  case Nil
  then show ?case
    by simp
next
  case (Cons ev evs)
  have "ctx_ephemeralMessageReceivingErrors (snd (step d cfg s ev)) =
          take 20 (rev (logged (resets s ev) (receivedError d cfg s ev) log))"
    unfolding step_receiving by (rule buffer_logged) (rule Cons.prems)
  from Cons.IH [OF this] show ?case
    by simp
qed

lemma run_authoring:
  assumes "ctx_ephemeralMessageAuthoringErrors (snd s) = take 20 (rev log)"
  shows "ctx_ephemeralMessageAuthoringErrors (snd (run d cfg s evs)) =
           take 20 (rev (errorsAuthored d cfg s evs log))"
  using assms unfolding run_def
proof (induction evs arbitrary: s log)
  case Nil
  then show ?case
    by simp
next
  case (Cons ev evs)
  have "ctx_ephemeralMessageAuthoringErrors (snd (step d cfg s ev)) =
          take 20 (rev (logged (resets s ev) (authoredError s ev) log))"
    unfolding step_authoring by (rule buffer_logged) (rule Cons.prems)
  from Cons.IH [OF this] show ?case
    by simp
qed

lemma last_20: "take 20 (rev log) = rev (drop (length log - 20) log)"
  by (simp add: take_rev)

text \<open>
  C9. In every state the machine reaches from its initial state, by whatever events, each
  of the two error buffers holds at most 20 entries, and these are the last errors recorded
  since the last reset, the newest first: an event that records no error, such as a message
  that is accepted, leaves them there. With 20 errors or more recorded, the buffer holds
  exactly 20 entries and they are the last 20 errors recorded.
\<close>

theorem error_buffers_hold_the_last_20:
  assumes "s = run d cfg (Disconnected, initialContext session) evs"
    and "received = errorsReceived d cfg (Disconnected, initialContext session) evs []"
    and "authored = errorsAuthored d cfg (Disconnected, initialContext session) evs []"
    and "receiving = ctx_ephemeralMessageReceivingErrors (snd s)"
    and "authoring = ctx_ephemeralMessageAuthoringErrors (snd s)"
  shows "length receiving \<le> 20
       \<and> length authoring \<le> 20
       \<and> receiving = take 20 (rev received)
       \<and> authoring = take 20 (rev authored)
       \<and> (20 \<le> length received \<longrightarrow>
            length receiving = 20 \<and> receiving = rev (drop (length received - 20) received))
       \<and> (20 \<le> length authored \<longrightarrow>
            length authoring = 20 \<and> authoring = rev (drop (length authored - 20) authored))"
proof -
  have r: "receiving = take 20 (rev received)"
    unfolding assms by (rule run_receiving) (simp add: initialContext_def)
  have a: "authoring = take 20 (rev authored)"
    unfolding assms by (rule run_authoring) (simp add: initialContext_def)
  have "length receiving \<le> 20" "length authoring \<le> 20"
    unfolding r a by simp_all
  moreover have "length receiving = 20"
      "receiving = rev (drop (length received - 20) received)"
    if "20 \<le> length received"
    using that unfolding r by (simp_all add: last_20)
  moreover have "length authoring = 20"
      "authoring = rev (drop (length authored - 20) authored)"
    if "20 \<le> length authored"
    using that unfolding a by (simp_all add: last_20)
  ultimately show ?thesis
    using r a by blast
qed

lemma run_append: "run d cfg s (evs @ evs') = run d cfg (run d cfg s evs) evs'"
  by (simp add: run_def)

lemma errorsReceived_append:
  "errorsReceived d cfg s (evs @ evs') log =
     errorsReceived d cfg (run d cfg s evs) evs' (errorsReceived d cfg s evs log)"
  unfolding run_def by (induction evs arbitrary: s log) simp_all

lemma errorsAuthored_append:
  "errorsAuthored d cfg s (evs @ evs') log =
     errorsAuthored d cfg (run d cfg s evs) evs' (errorsAuthored d cfg s evs log)"
  unfolding run_def by (induction evs arbitrary: s log) simp_all

lemma run_retry_connected:
  "run d cfg (Disconnected, initialContext session) [WEBSOCKET_RETRY session, WEBSOCKET_CONNECTED]
     = (Connected, initialContext session)"
  by (simp add: run_def resetContext_def initialContext_def)

lemma errorsAuthored_connected:
  "errorsAuthored d cfg (Connected, ctx) (map FAILED_CREATING_EPHEMERAL_UPDATE es) log =
     log @ es"
  by (induction es arbitrary: ctx log) (simp_all add: resets_def authoredError_def logged_def)

text \<open>
  The message with the signature of another message is answered with
  \<^verbatim>\<open>SECSYNC_ERROR_38\<close>, in every context, and changes nothing but the buffer.
\<close>

lemma verify_brokenMessage:
  "verifyAndDecryptEphemeralMessage plainDeps brokenMessage sharedKey doc s kp =
     errorResult ''SECSYNC_ERROR_38''"
  by (simp add: verifyAndDecryptEphemeralMessage_def decodeEphemeralMessage_def
      brokenMessage_def messageA_def sealEphemeral_def plainDeps_def plainSign_def
      plainEncrypt_def frame_def Let_def keyPairA_def sessionIdA_def stringOfBytes_def
      bytesOfString_def)

lemma handleEphemeralMessage_brokenMessage:
  "handleEphemeralMessage plainDeps configB ctx brokenMessage =
     ctx\<lparr>ctx_ephemeralMessageReceivingErrors :=
           addError ''SECSYNC_ERROR_38'' (ctx_ephemeralMessageReceivingErrors ctx)\<rparr>"
proof -
  have "pubKey (publicData brokenMessage) = ''A''"
    by (simp add: brokenMessage_def messageA_def sealEphemeral_def Let_def keyPairA_def
        stringOfBytes_def char_of_65)
  then show ?thesis
    by (simp add: handleEphemeralMessage_def configB_def verify_brokenMessage errorResult_def
        Let_def)
qed

lemma errorOf_brokenMessage:
  "errorOf plainDeps configB ctx brokenMessage = Some ''SECSYNC_ERROR_38''"
proof -
  have "pubKey (publicData brokenMessage) = ''A''"
    by (simp add: brokenMessage_def messageA_def sealEphemeral_def Let_def keyPairA_def
        stringOfBytes_def char_of_65)
  then show ?thesis
    by (simp add: errorOf_def configB_def verify_brokenMessage errorResult_def)
qed

lemma run_brokenMessages:
  "run plainDeps configB (Connected, ctx)
       (replicate n (INCOMING_EPHEMERAL_MESSAGE brokenMessage)) =
     (Connected,
      ctx\<lparr>ctx_ephemeralMessageReceivingErrors :=
            (addError ''SECSYNC_ERROR_38'' ^^ n) (ctx_ephemeralMessageReceivingErrors ctx)\<rparr>)"
  unfolding run_def
proof (induction n arbitrary: ctx)
  case 0
  then show ?case
    by simp
next
  case (Suc n)
  show ?case
    by (simp add: handleEphemeralMessage_brokenMessage Suc.IH funpow_swap1)
qed

lemma errorsReceived_brokenMessages:
  "errorsReceived plainDeps configB (Connected, ctx)
       (replicate n (INCOMING_EPHEMERAL_MESSAGE brokenMessage)) log =
     log @ replicate n ''SECSYNC_ERROR_38''"
proof (induction n arbitrary: ctx log)
  case 0
  then show ?case
    by simp
next
  case (Suc n)
  show ?case
    by (simp add: resets_def receivedError_def logged_def errorOf_brokenMessage Suc.IH
        replicate_app_Cons_same)
qed

text \<open>The message with counter 6 is accepted where A's stored counter is 5.\<close>

lemma verify_messageA_6:
  "verifyAndDecryptEphemeralMessage plainDeps (messageA 3 6 ''doc'') sharedKey ''doc''
       sessionB keyPairB =
     \<lparr>r_error = None, r_proof = None, r_requestProof = None,
      r_validSessions =
        Some ((validSessions sessionB)(to_base64 plainDeps [65] \<mapsto>
          \<lparr>sessionId = replicate 24 CHR ''a'', sessionCounter = 6\<rparr>)),
      r_content = Some [22]\<rparr>"
  by (simp add: verify_Decoded [OF decode_messageA] handleDecoded_def docId_messageA
      messageTypes_defs sessionB_entry Let_def)

lemma pubKey_messageA: "pubKey (publicData (messageA t c doc)) = ''A''"
  by (simp add: messageA_def sealEphemeral_def Let_def keyPairA_def stringOfBytes_def
      char_of_65)

text \<open>
  The two tests on the buffers. After 24 authoring errors the buffer has 20 entries, the
  first of them error 23 and the last error 4. After 25 messages with a signature that is
  not theirs and one message that is accepted, the receiving buffer has the 20 errors and
  the host has been given the content of the accepted message.
\<close>

theorem error_buffers_hold_the_last_20_witness:
  "length (ctx_ephemeralMessageAuthoringErrors (snd (run plainDeps configB
       (Disconnected, initialContext sessionB) authoringEvents))) = 20
   \<and> ctx_ephemeralMessageAuthoringErrors (snd (run plainDeps configB
       (Disconnected, initialContext sessionB) authoringEvents)) ! 0 = errorNo 23
   \<and> ctx_ephemeralMessageAuthoringErrors (snd (run plainDeps configB
       (Disconnected, initialContext sessionB) authoringEvents)) ! 19 = errorNo 4
   \<and> ctx_ephemeralMessageReceivingErrors (snd (run plainDeps configB
       (Disconnected, initialContext sessionB) receivingEvents)) =
     replicate 20 ''SECSYNC_ERROR_38''
   \<and> ctx_ephemeralMessages (snd (run plainDeps configB
       (Disconnected, initialContext sessionB) receivingEvents)) = [[22]]"
proof -
  let ?s = "(Disconnected, initialContext sessionB)"
  let ?ctx = "initialContext sessionB"
  let ?es = "map errorNo [0..<24]"
  let ?authoring = "ctx_ephemeralMessageAuthoringErrors
      (snd (run plainDeps configB ?s authoringEvents))"
  let ?receiving = "ctx_ephemeralMessageReceivingErrors
      (snd (run plainDeps configB ?s receivingEvents))"
  let ?ctx25 = "?ctx\<lparr>ctx_ephemeralMessageReceivingErrors :=
      (addError ''SECSYNC_ERROR_38'' ^^ 25) (ctx_ephemeralMessageReceivingErrors ?ctx)\<rparr>"
  have authored: "errorsAuthored plainDeps configB ?s authoringEvents [] = ?es"
    unfolding authoringEvents_def errorsAuthored_append run_retry_connected
      errorsAuthored_connected
    by (simp add: resets_def authoredError_def logged_def)
  have many: "20 \<le> length (errorsAuthored plainDeps configB ?s authoringEvents [])"
    unfolding authored by simp
  have "?authoring = rev (drop (length ?es - 20) ?es)"
    using error_buffers_hold_the_last_20 [OF refl refl refl refl refl,
        of plainDeps configB sessionB authoringEvents,
        THEN conjunct2, THEN conjunct2, THEN conjunct2, THEN conjunct2, THEN conjunct2,
        rule_format, OF many, THEN conjunct2]
    unfolding authored .
  moreover have "rev (drop (length ?es - 20) ?es) = map errorNo (rev [4..<24])"
    by (simp add: rev_map drop_map)
  ultimately have authoring: "?authoring = map errorNo (rev [4..<24])"
    by (rule trans)
  have "rev [4..<24] ! 0 = (23 :: nat)" "rev [4..<24] ! 19 = (4 :: nat)"
    by code_simp+
  then have a: "length ?authoring = 20" "?authoring ! 0 = errorNo 23"
    "?authoring ! 19 = errorNo 4"
    unfolding authoring by simp_all
  have reached: "run plainDeps configB ?s
      ([WEBSOCKET_RETRY sessionB, WEBSOCKET_CONNECTED]
         @ replicate 25 (INCOMING_EPHEMERAL_MESSAGE brokenMessage)) = (Connected, ?ctx25)"
    unfolding run_append run_retry_connected run_brokenMessages ..
  have accepted: "errorOf plainDeps configB ?ctx25 (messageA 3 6 ''doc'') = None"
    by (simp add: errorOf_def pubKey_messageA configB_def initialContext_def verify_messageA_6)
  have "errorsReceived plainDeps configB ?s
      ([WEBSOCKET_RETRY sessionB, WEBSOCKET_CONNECTED]
         @ replicate 25 (INCOMING_EPHEMERAL_MESSAGE brokenMessage)) [] =
      replicate 25 ''SECSYNC_ERROR_38''"
    unfolding errorsReceived_append run_retry_connected errorsReceived_brokenMessages
    by (simp add: resets_def receivedError_def logged_def)
  then have received: "errorsReceived plainDeps configB ?s receivingEvents [] =
      replicate 25 ''SECSYNC_ERROR_38''"
    unfolding receivingEvents_def append_assoc [symmetric]
    unfolding errorsReceived_append [of _ _ _ _ "[INCOMING_EPHEMERAL_MESSAGE (messageA 3 6 ''doc'')]"]
      reached
    by (simp add: resets_def receivedError_def logged_def accepted)
  have "?receiving = take 20 (rev (replicate 25 ''SECSYNC_ERROR_38''))"
    using error_buffers_hold_the_last_20 [OF refl refl refl refl refl,
        of plainDeps configB sessionB receivingEvents,
        THEN conjunct2, THEN conjunct2, THEN conjunct1]
    unfolding received .
  then have r: "?receiving = replicate 20 ''SECSYNC_ERROR_38''"
    by simp
  have "run plainDeps configB ?s receivingEvents =
      run plainDeps configB (Connected, ?ctx25)
        [INCOMING_EPHEMERAL_MESSAGE (messageA 3 6 ''doc'')]"
    unfolding receivingEvents_def append_assoc [symmetric]
    unfolding run_append [of _ _ _ _ "[INCOMING_EPHEMERAL_MESSAGE (messageA 3 6 ''doc'')]"]
      reached ..
  then have c: "ctx_ephemeralMessages (snd (run plainDeps configB ?s receivingEvents)) = [[22]]"
    by (simp add: run_def handleEphemeralMessage_def pubKey_messageA configB_def
        initialContext_def verify_messageA_6 Let_def)
  from a r c show ?thesis
    by (intro conjI)
qed
end
